theory Spec2Isabelle
  imports Complex_Main
begin

section \<open>Telemetry synthesis of the route handler\<close>

text \<open>
  The theory embeds the Go handler \<^verbatim>\<open>HandleGenerateFileSingleMarker\<close> and the helpers
  it calls (\<^verbatim>\<open>createSpeedProfile\<close>, \<^verbatim>\<open>createBPMProfile\<close>, \<^verbatim>\<open>createCadenceProfile\<close>,
  \<^verbatim>\<open>interpolatePoints\<close>, \<^verbatim>\<open>generateTimestamps\<close>, \<^verbatim>\<open>haversineDistance\<close>,
  \<^verbatim>\<open>destinationPoint\<close>, \<^verbatim>\<open>calculateInitialCompassBearing\<close>).

  Modelling decisions:
  \<^item> \<^verbatim>\<open>float64\<close> is \<^typ>\<open>real\<close>, with one exception: the distance returned by
    \<^verbatim>\<open>haversineDistance\<close> is a number or NaN. In float arithmetic the argument \<open>a\<close> of
    the haversine formula can round to a value above 1 (near-antipodal points), the
    square root of \<open>1 - a\<close> is then NaN, and the conversion of NaN to \<^verbatim>\<open>int\<close> decides
    how the handler goes on. The float unit (the rounding of \<open>a\<close>, and the
    implementation-dependent value of \<^verbatim>\<open>int(NaN)\<close>) is an explicit argument \<open>fp\<close>, so
    that quantifying over it covers every rounding; coordinates and elevations are
    finite numbers, and other rounding errors, infinities and the limits of the
    allocator are not modelled;
  \<^item> Go's \<^verbatim>\<open>int\<close> is \<^typ>\<open>int\<close> (the values stay far from 64 bits);
  \<^item> a slice is a list; an index out of range, a negative length given to
    \<^verbatim>\<open>make\<close> and a negative slice bound are panics, returned as \<open>Inl (Panic _)\<close>;
  \<^item> the ambient pseudo-random generator is an explicit state: two tapes of future
    outcomes (one for \<^verbatim>\<open>rand.NormFloat64\<close>, one for \<^verbatim>\<open>rand.Intn\<close>) and a read
    position in each, so that quantifying over the state covers every outcome;
  \<^item> the wall clock read by \<^verbatim>\<open>time.Now()\<close> is an explicit argument \<open>now\<close>;
  \<^item> the model starts where the handler holds the parsed waypoints: the request
    binding, the call to the routing provider and the XML parsing are not modelled.
\<close>

subsection \<open>Numeric primitives of the Go runtime and of package math\<close>

text \<open>The conversion \<^verbatim>\<open>int(x)\<close> of a float: truncation toward zero.\<close>

definition trunc :: "real \<Rightarrow> int" where
  "trunc x = (if 0 \<le> x then \<lfloor>x\<rfloor> else \<lceil>x\<rceil>)"

text \<open>
  A distance as the float unit computes it, and the float unit: \<open>round_a fp x\<close> is the
  float value of the haversine argument whose exact value is \<open>x\<close>, \<open>int_of_NaN fp\<close> is
  what \<^verbatim>\<open>int(NaN)\<close> yields (\<open>- 2^63\<close> on amd64, 0 on arm64; the language leaves it to
  the implementation).
\<close>

datatype distance = Metres real | NaN

record float_unit =
  round_a :: "real \<Rightarrow> real"
  int_of_NaN :: int

text \<open>\<^verbatim>\<open>int(distance / s)\<close> for a number \<open>s\<close> other than 0: NaN divided by \<open>s\<close> is NaN.\<close>

definition int_of_quotient :: "float_unit \<Rightarrow> distance \<Rightarrow> real \<Rightarrow> int" where
  "int_of_quotient fp d s = (case d of NaN \<Rightarrow> int_of_NaN fp | Metres x \<Rightarrow> trunc (x / s))"

text \<open>\<^verbatim>\<open>math.Atan2(y, x)\<close> on finite arguments.\<close>

definition math_Atan2 :: "real \<Rightarrow> real \<Rightarrow> real" where
  "math_Atan2 y x =
     (if 0 < x then arctan (y / x)
      else if x < 0 then (if 0 \<le> y then arctan (y / x) + pi else arctan (y / x) - pi)
      else if 0 < y then pi / 2
      else if y < 0 then - (pi / 2)
      else 0)"

text \<open>\<^verbatim>\<open>math.Mod(x, y)\<close>: the remainder with the sign of \<open>x\<close>.\<close>

definition math_Mod :: "real \<Rightarrow> real \<Rightarrow> real" where
  "math_Mod x y = x - y * real_of_int (trunc (x / y))"

subsection \<open>Panics and error responses\<close>

datatype panic = IndexOutOfRange | MakeSliceLenOutOfRange | SliceBoundsOutOfRange

datatype failure = Panic panic | Response500 string

definition make_slice :: "int \<Rightarrow> 'a \<Rightarrow> failure + 'a list" where
  "make_slice n zero =
     (if n < 0 then Inl (Panic MakeSliceLenOutOfRange) else Inr (replicate (nat n) zero))"

definition index :: "'a list \<Rightarrow> int \<Rightarrow> failure + 'a" where
  "index xs i =
     (if 0 \<le> i \<and> i < int (length xs) then Inr (xs ! nat i) else Inl (Panic IndexOutOfRange))"

definition store :: "'a list \<Rightarrow> int \<Rightarrow> 'a \<Rightarrow> failure + 'a list" where
  "store xs i v =
     (if 0 \<le> i \<and> i < int (length xs) then Inr (xs[nat i := v]) else Inl (Panic IndexOutOfRange))"

text \<open>\<^verbatim>\<open>xs[:n]\<close> where the capacity of \<open>xs\<close> is its length.\<close>

definition slice_to :: "'a list \<Rightarrow> int \<Rightarrow> failure + 'a list" where
  "slice_to xs n =
     (if 0 \<le> n \<and> n \<le> int (length xs) then Inr (take (nat n) xs)
      else Inl (Panic SliceBoundsOutOfRange))"

text \<open>\<^verbatim>\<open>for i, v := range src { dst[i] = f(v) }\<close>, started at index \<open>i\<close>.\<close>

fun range_store :: "('a \<Rightarrow> 'b) \<Rightarrow> nat \<Rightarrow> 'a list \<Rightarrow> 'b list \<Rightarrow> failure + 'b list" where
  "range_store f i [] dst = Inr dst"
| "range_store f i (v # src) dst =
     (case store dst (int i) (f v) of
        Inl e \<Rightarrow> Inl e
      | Inr dst' \<Rightarrow> range_store f (Suc i) src dst')"

subsection \<open>Data\<close>

text \<open>
  \<^verbatim>\<open>Trkpt\<close> carries a time string and an extensions pointer too; the handler neither
  reads nor sets them on the points it works with.
\<close>

record Trkpt =
  Lat :: real
  Lon :: real
  Ele :: real

record Coordinate =
  lat :: real
  lon :: real
  ele :: real

text \<open>An instant, in nanoseconds; \<^verbatim>\<open>time.Second\<close> is \<open>10^9\<close> of them.\<close>

type_synonym time = int

definition Second :: int where
  "Second = 1000000000"

record GPXDataResult =
  Timestamps :: "time list"
  BPMProfile :: "int list"
  PaceProfile :: "real list"
  Route :: "Coordinate list"

subsection \<open>The pseudo-random source\<close>

record rng =
  normal_tape :: "nat \<Rightarrow> real"
  intn_tape :: "nat \<Rightarrow> nat"
  normal_pos :: nat
  intn_pos :: nat

definition NormFloat64 :: "rng \<Rightarrow> real \<times> rng" where
  "NormFloat64 g = (normal_tape g (normal_pos g), g\<lparr>normal_pos := Suc (normal_pos g)\<rparr>)"

text \<open>\<^verbatim>\<open>rand.Intn(n)\<close> for \<open>n > 0\<close>: a value in \<open>[0, n)\<close>.\<close>

definition Intn :: "int \<Rightarrow> rng \<Rightarrow> int \<times> rng" where
  "Intn n g = (int (intn_tape g (intn_pos g)) mod n, g\<lparr>intn_pos := Suc (intn_pos g)\<rparr>)"

subsection \<open>Geodesy\<close>

text \<open>
  \<^verbatim>\<open>math.Sqrt\<close> of a negative number is NaN, and NaN goes through \<^verbatim>\<open>math.Atan2\<close> and the
  product: the distance is NaN when the float value of \<open>a\<close> is below 0 or above 1.
\<close>

definition haversineDistance ::
  "float_unit \<Rightarrow> real \<Rightarrow> real \<Rightarrow> real \<Rightarrow> real \<Rightarrow> distance" where
  "haversineDistance fp lat1 lon1 lat2 lon2 =
     (let EarthRadius = 6371000;
          dLat = (lat2 - lat1) * pi / 180;
          dLon = (lon2 - lon1) * pi / 180;
          a = round_a fp
                (sin (dLat / 2) * sin (dLat / 2)
                 + cos (lat1 * pi / 180) * cos (lat2 * pi / 180)
                   * sin (dLon / 2) * sin (dLon / 2))
      in if a < 0 \<or> 1 < a then NaN
         else (let c = 2 * math_Atan2 (sqrt a) (sqrt (1 - a)) in Metres (EarthRadius * c)))"

definition destinationPoint :: "real \<Rightarrow> real \<Rightarrow> real \<Rightarrow> real \<Rightarrow> real \<times> real" where
  "destinationPoint lat1d lon1d bearingd distance =
     (let EarthRadius = 6371000;
          bearing = bearingd * pi / 180;
          lat1 = lat1d * pi / 180;
          lon1 = lon1d * pi / 180;
          lat2 = arcsin (sin lat1 * cos (distance / EarthRadius)
                         + cos lat1 * sin (distance / EarthRadius) * cos bearing);
          lon2 = lon1 + math_Atan2 (sin bearing * sin (distance / EarthRadius) * cos lat1)
                                   (cos (distance / EarthRadius) - sin lat1 * sin lat2)
      in (lat2 * 180 / pi, lon2 * 180 / pi))"

definition calculateInitialCompassBearing :: "real \<times> real \<Rightarrow> real \<times> real \<Rightarrow> real" where
  "calculateInitialCompassBearing pointA pointB =
     (let lat1 = fst pointA * pi / 180;
          lat2 = fst pointB * pi / 180;
          diffLong = (snd pointB - snd pointA) * pi / 180;
          x = sin diffLong * cos lat2;
          y = cos lat1 * sin lat2 - sin lat1 * cos lat2 * cos diffLong;
          initialBearing = math_Atan2 x y * 180 / pi
      in math_Mod (initialBearing + 360) 360)"

subsection \<open>Profile generators\<close>

text \<open>The loop that fills \<^verbatim>\<open>randomFluctuations\<close>: one normal draw per slot, times 1.8.\<close>

fun draw_fluctuations :: "nat \<Rightarrow> rng \<Rightarrow> real list \<times> rng" where
  "draw_fluctuations 0 g = ([], g)"
| "draw_fluctuations (Suc n) g =
     (let (x, g1) = NormFloat64 g;
          (xs, g2) = draw_fluctuations n g1
      in (x * 1.8 # xs, g2))"

definition createSpeedProfile :: "int \<Rightarrow> real \<Rightarrow> real \<Rightarrow> rng \<Rightarrow> failure + (real list \<times> rng)" where
  "createSpeedProfile totalSeconds avgSpeed speedDecrease g =
     (if totalSeconds < 0 then Inl (Panic MakeSliceLenOutOfRange)
      else
        let n = nat totalSeconds;
            (randomFluctuations, g1) = draw_fluctuations n g
        in (case store randomFluctuations 0 (0.2 * avgSpeed) of
              Inl e \<Rightarrow> Inl e
            | Inr randomFluctuations \<Rightarrow>
                (let desiredSpeeds = map (\<lambda>r. avgSpeed + r) randomFluctuations;
                     speedProfile =
                       map (\<lambda>i. desiredSpeeds ! i
                                 - (speedDecrease * real i) / real_of_int totalSeconds) [0..<n];
                     minSpeed = avgSpeed * 0.90
                 in Inr (map (\<lambda>s. if s < minSpeed then minSpeed else s) speedProfile, g1))))"

text \<open>
  The loop \<^verbatim>\<open>for t := 1; t < totalSeconds; t++ { ...; profile[t] = total }\<close> shared by
  the heart-rate and the cadence generator; \<open>sample t g\<close> is the loop body up to the
  store.
\<close>

function profile_loop ::
  "(int \<Rightarrow> rng \<Rightarrow> failure + (real \<times> rng)) \<Rightarrow> int \<Rightarrow> int \<Rightarrow> real list \<Rightarrow> rng
     \<Rightarrow> failure + (real list \<times> rng)" where
  "profile_loop sample t totalSeconds prof g =
     (if t < totalSeconds then
        (case sample t g of
           Inl e \<Rightarrow> Inl e
         | Inr (v, g1) \<Rightarrow>
             (case store prof t v of
                Inl e \<Rightarrow> Inl e
              | Inr prof1 \<Rightarrow> profile_loop sample (t + 1) totalSeconds prof1 g1))
      else Inr (prof, g))"
  by pat_completeness auto
termination
  by (relation "measure (\<lambda>(sample, t, totalSeconds, prof, g). nat (totalSeconds - t))") auto

declare profile_loop.simps [simp del]

definition bpm_sample ::
  "int \<Rightarrow> real \<Rightarrow> real \<Rightarrow> real list \<Rightarrow> real list \<Rightarrow> int \<Rightarrow> rng \<Rightarrow> failure + (real \<times> rng)" where
  "bpm_sample totalSeconds avgBPM avgSpeed speedProfile elevationChanges t g =
     (let progress = real_of_int t / real_of_int totalSeconds;
          sigmoid = 1 / (1 + exp (- 12 * (progress - 0.2)));
          baseBPM = - 20 + 20 * sigmoid
      in (case index speedProfile t of
            Inl e \<Rightarrow> Inl e
          | Inr s \<Rightarrow>
              (let speedDeviation = s - avgSpeed;
                   bpmSpeed = speedDeviation * 10;
                   elevationChange =
                     (if t < int (length elevationChanges) then elevationChanges ! nat t else 0);
                   bpmElevation = elevationChange * 8;
                   (r, g1) = Intn 3 g;
                   bpmTotal = avgBPM + baseBPM + bpmSpeed + bpmElevation + real_of_int (r - 1)
               in Inr (if bpmTotal < 60 then 60
                       else if bpmTotal > 200 then 200 else bpmTotal, g1))))"

definition createBPMProfile ::
  "int \<Rightarrow> real \<Rightarrow> real \<Rightarrow> real list \<Rightarrow> real list \<Rightarrow> rng \<Rightarrow> failure + (real list \<times> rng)" where
  "createBPMProfile totalSeconds avgBPM avgSpeed speedProfile elevationChanges g =
     (case make_slice totalSeconds 0 of
        Inl e \<Rightarrow> Inl e
      | Inr bpm \<Rightarrow>
          (case store bpm 0 (avgBPM - 20) of
             Inl e \<Rightarrow> Inl e
           | Inr bpm1 \<Rightarrow>
               profile_loop (bpm_sample totalSeconds avgBPM avgSpeed speedProfile elevationChanges)
                 1 totalSeconds bpm1 g))"

definition cadence_sample ::
  "real \<Rightarrow> real \<Rightarrow> real list \<Rightarrow> real list \<Rightarrow> int \<Rightarrow> rng \<Rightarrow> failure + (real \<times> rng)" where
  "cadence_sample avgCadence avgSpeed speedProfile elevationChanges t g =
     (case index speedProfile t of
        Inl e \<Rightarrow> Inl e
      | Inr s \<Rightarrow>
          (let speedDeviation = s - avgSpeed;
               cadenceSpeed = speedDeviation * 3;
               elevationChange =
                 (if t < int (length elevationChanges) then elevationChanges ! nat t else 0);
               cadenceElevation = elevationChange * 2;
               (r, g1) = Intn 3 g;
               cadenceTotal = avgCadence + cadenceSpeed + cadenceElevation + real_of_int (r - 1)
           in Inr (if cadenceTotal < 30 then 30
                   else if cadenceTotal > 150 then 150 else cadenceTotal, g1)))"

definition createCadenceProfile ::
  "int \<Rightarrow> real \<Rightarrow> real \<Rightarrow> real list \<Rightarrow> real list \<Rightarrow> rng \<Rightarrow> failure + (real list \<times> rng)" where
  "createCadenceProfile totalSeconds avgCadence avgSpeed speedProfile elevationChanges g =
     (case make_slice totalSeconds 0 of
        Inl e \<Rightarrow> Inl e
      | Inr cadence \<Rightarrow>
          (let (r, g1) = Intn 3 g
           in (case store cadence 0 (avgCadence + real_of_int (r - 1)) of
                 Inl e \<Rightarrow> Inl e
               | Inr cadence1 \<Rightarrow>
                   profile_loop (cadence_sample avgCadence avgSpeed speedProfile elevationChanges)
                     1 totalSeconds cadence1 g1)))"

subsection \<open>Interpolation and timestamps\<close>

text \<open>
  The quotient \<^verbatim>\<open>distance / speed\<close> is a float division: for a zero speed Go yields an
  infinity or NaN, HOL yields 0. The handler only passes speed profiles whose values are
  at least \<open>0.9 * AvgSpeed\<close> (lemma \<open>createSpeedProfile_ok\<close>), so the case does not
  arise in a run. A negative \<^verbatim>\<open>numSeconds\<close> (from \<^verbatim>\<open>int(NaN)\<close>) is not 0, stays as it
  is, and the loop from 1 to it emits nothing.
\<close>

definition interpolatePoints ::
  "float_unit \<Rightarrow> Trkpt \<Rightarrow> Trkpt \<Rightarrow> real list \<Rightarrow> int \<Rightarrow> int \<Rightarrow> failure + Trkpt list" where
  "interpolatePoints fp p1 p2 speedProfile totalTime currentTime0 =
     (let distance = haversineDistance fp (Lat p1) (Lon p1) (Lat p2) (Lon p2);
          currentTime = (if currentTime0 \<ge> int (length speedProfile)
                         then int (length speedProfile) - 1 else currentTime0)
      in (case index speedProfile currentTime of
            Inl e \<Rightarrow> Inl e
          | Inr speed \<Rightarrow>
              (let numSeconds0 = int_of_quotient fp distance speed;
                   numSeconds = (if numSeconds0 = 0 then 1 else numSeconds0);
                   eleDiff = Ele p2 - Ele p1;
                   bearing = calculateInitialCompassBearing (Lat p1, Lon p1) (Lat p2, Lon p2)
               in Inr (map (\<lambda>i.
                              let fraction = real i / real_of_int numSeconds;
                                  interpolatedDistance = speed * real i;
                                  (interpolatedLat, interpolatedLon) =
                                    destinationPoint (Lat p1) (Lon p1) bearing interpolatedDistance;
                                  interpolatedEle = Ele p1 + (eleDiff * fraction)
                              in \<lparr>Lat = interpolatedLat, Lon = interpolatedLon,
                                  Ele = interpolatedEle\<rparr>)
                         [1..<Suc (nat numSeconds)]))))"

definition generateTimestamps :: "int \<Rightarrow> int \<Rightarrow> time \<Rightarrow> failure + time list" where
  "generateTimestamps numPoints intervalSeconds startTime =
     (if numPoints < 0 then Inl (Panic MakeSliceLenOutOfRange)
      else Inr (map (\<lambda>i. startTime + (int i * intervalSeconds) * Second) [0..<nat numPoints]))"

subsection \<open>The handler\<close>

text \<open>Sequencing of fallible steps: the first failure ends the run.\<close>

definition and_then :: "failure + 'a \<Rightarrow> ('a \<Rightarrow> failure + 'b) \<Rightarrow> failure + 'b" where
  "and_then r k = (case r of Inl e \<Rightarrow> Inl e | Inr x \<Rightarrow> k x)"

definition AvgSpeed :: real where
  "AvgSpeed = 1.5"

definition AvgBPM :: real where
  "AvgBPM = 120"

definition AvgCadence :: real where
  "AvgCadence = 80"

text \<open>
  Lines 211 and 214: the time estimate \<^verbatim>\<open>int(float64(routeLength) / AvgSpeed)\<close>,
  then \<^verbatim>\<open>int(float64(totalTimeSeconds) * 1.3)\<close>.
\<close>

definition horizon :: "int \<Rightarrow> int" where
  "horizon routeLength =
     (let totalTimeSeconds = trunc (real_of_int routeLength / AvgSpeed)
      in trunc (real_of_int totalTimeSeconds * 1.3))"

text \<open>
  Lines 218 to 230: the per-second elevation deltas, one run of \<open>numSeconds\<close> equal
  values per consecutive pair of waypoints, appended to the series built so far.
\<close>

fun elevation_segments :: "float_unit \<Rightarrow> Trkpt list \<Rightarrow> real list \<Rightarrow> real list" where
  "elevation_segments fp (p1 # p2 # ps) elevationChanges =
     (let eleChange = Ele p2 - Ele p1;
          distance = haversineDistance fp (Lat p1) (Lon p1) (Lat p2) (Lon p2);
          numSeconds = int_of_quotient fp distance AvgSpeed
      in elevation_segments fp (p2 # ps)
           (elevationChanges
            @ replicate (nat numSeconds)
                (if numSeconds > 0 then eleChange / real_of_int numSeconds else 0)))"
| "elevation_segments fp ps elevationChanges = elevationChanges"

text \<open>Lines 232 to 238: zero padding, or truncation, to the horizon.\<close>

definition pad_elevation :: "real list \<Rightarrow> int \<Rightarrow> failure + real list" where
  "pad_elevation elevationChanges totalTimeSeconds =
     (if int (length elevationChanges) < totalTimeSeconds
      then Inr (elevationChanges
                @ replicate (nat totalTimeSeconds - length elevationChanges) 0)
      else slice_to elevationChanges totalTimeSeconds)"

definition elevation_series :: "float_unit \<Rightarrow> Trkpt list \<Rightarrow> int \<Rightarrow> failure + real list" where
  "elevation_series fp points totalTimeSeconds =
     pad_elevation (elevation_segments fp points []) totalTimeSeconds"

text \<open>
  Lines 207 to 242: the three profiles. The result carries the value of
  \<^verbatim>\<open>totalTimeSeconds\<close> after line 240, which the interpolation uses.
\<close>

definition synthesizeProfiles ::
  "float_unit \<Rightarrow> rng \<Rightarrow> int \<Rightarrow> Trkpt list
     \<Rightarrow> failure + (real list \<times> real list \<times> real list \<times> int)" where
  "synthesizeProfiles fp g routeLength points =
     (let totalTimeSeconds0 = horizon routeLength
      in and_then (createSpeedProfile totalTimeSeconds0 AvgSpeed 0.2 g) (\<lambda>(speedProfile, g1).
         and_then (elevation_series fp points totalTimeSeconds0) (\<lambda>elevationChanges.
           (let totalTimeSeconds = totalTimeSeconds0 - 2
            in and_then (createBPMProfile totalTimeSeconds AvgBPM AvgSpeed
                           speedProfile elevationChanges g1) (\<lambda>(bpmProfileFloat, g2).
               and_then (createCadenceProfile totalTimeSeconds AvgCadence AvgSpeed
                           speedProfile elevationChanges g2) (\<lambda>(cadenceProfile, g3).
                 Inr (speedProfile, bpmProfileFloat, cadenceProfile, totalTimeSeconds)))))))"

text \<open>
  Lines 253 to 258: the handler's own duration of a segment, by which it advances
  \<^verbatim>\<open>currentTime\<close>.
\<close>

definition segment_duration :: "float_unit \<Rightarrow> distance \<Rightarrow> real \<Rightarrow> int" where
  "segment_duration fp distance speed =
     (if speed > 0 then int_of_quotient fp distance speed else 1)"

text \<open>
  Lines 247 to 263: the loop over consecutive waypoints, with its \<^verbatim>\<open>break\<close>. It
  returns the interpolated points and the final \<^verbatim>\<open>currentTime\<close>.
\<close>

fun segment_loop ::
  "float_unit \<Rightarrow> Trkpt list \<Rightarrow> real list \<Rightarrow> int \<Rightarrow> int \<Rightarrow> Trkpt list
     \<Rightarrow> failure + (Trkpt list \<times> int)" where
  "segment_loop fp (p1 # p2 # ps) speedProfile totalTimeSeconds currentTime interpolatedPoints =
     and_then (interpolatePoints fp p1 p2 speedProfile totalTimeSeconds currentTime)
       (\<lambda>newPoints.
     and_then (index speedProfile currentTime) (\<lambda>speed.
       (let distance = haversineDistance fp (Lat p1) (Lon p1) (Lat p2) (Lon p2);
            duration = segment_duration fp distance speed;
            currentTime1 = currentTime + duration
        in if currentTime1 \<ge> totalTimeSeconds
           then Inr (interpolatedPoints @ newPoints, currentTime1)
           else segment_loop fp (p2 # ps) speedProfile totalTimeSeconds currentTime1
                  (interpolatedPoints @ newPoints))))"
| "segment_loop fp ps speedProfile totalTimeSeconds currentTime interpolatedPoints =
     Inr (interpolatedPoints, currentTime)"

text \<open>
  Lines 269 to 286: a profile shorter than the trajectory is padded with its last
  value, a longer one is cut.
\<close>

definition adjust_profile :: "real list \<Rightarrow> int \<Rightarrow> failure + real list" where
  "adjust_profile prof totalInterpolated =
     (if int (length prof) < totalInterpolated
      then and_then (index prof (int (length prof) - 1)) (\<lambda>lastValue.
             Inr (prof @ replicate (nat totalInterpolated - length prof) lastValue))
      else slice_to prof totalInterpolated)"

text \<open>Lines 311 to 316: the pace of one speed sample.\<close>

definition pace_of_speed :: "real \<Rightarrow> real" where
  "pace_of_speed s = (if s \<le> 0 then 999.0 else 1000.0 / (s * 60.0))"

text \<open>Lines 305 to 307: the speed profile is cut when longer, and only then.\<close>

definition cut_speed :: "real list \<Rightarrow> int \<Rightarrow> failure + real list" where
  "cut_speed speedProfile totalInterpolated =
     (if int (length speedProfile) > totalInterpolated
      then slice_to speedProfile totalInterpolated else Inr speedProfile)"

text \<open>Lines 265 to 333.\<close>

definition assembleResult ::
  "time \<Rightarrow> real list \<Rightarrow> real list \<Rightarrow> real list \<Rightarrow> Trkpt list \<Rightarrow> failure + GPXDataResult" where
  "assembleResult now speedProfile0 bpmProfileFloat0 cadenceProfile0 interpolatedPoints =
     (let totalInterpolated = int (length interpolatedPoints)
      in and_then (adjust_profile bpmProfileFloat0 totalInterpolated) (\<lambda>bpmProfileFloat.
         and_then (adjust_profile cadenceProfile0 totalInterpolated) (\<lambda>cadenceProfile.
         and_then (generateTimestamps totalInterpolated 1 now) (\<lambda>timestamps.
           if int (length timestamps) \<noteq> totalInterpolated
           then Inl (Response500
                  ''Mismatch between number of timestamps and interpolated points.'')
           else
         and_then (make_slice totalInterpolated 0) (\<lambda>bpmProfile0.
         and_then (range_store trunc 0 bpmProfileFloat bpmProfile0) (\<lambda>bpmProfile.
         and_then (cut_speed speedProfile0 totalInterpolated) (\<lambda>speedProfile.
         and_then (make_slice totalInterpolated 0) (\<lambda>paceProfile0.
         and_then (range_store pace_of_speed 0 speedProfile paceProfile0) (\<lambda>paceProfile.
         and_then (make_slice totalInterpolated \<lparr>lat = 0, lon = 0, ele = 0\<rparr>) (\<lambda>route0.
         and_then (range_store (\<lambda>pt. \<lparr>lat = Lat pt, lon = Lon pt, ele = Ele pt\<rparr>) 0
                     interpolatedPoints route0) (\<lambda>route.
           Inr \<lparr>Timestamps = timestamps, BPMProfile = bpmProfile,
                PaceProfile = paceProfile, Route = route\<rparr>)))))))))))"

text \<open>
  Lines 203 to 333, from the parsed waypoints \<open>points\<close> on; \<open>routeLength\<close> is the
  request's field, \<open>fp\<close> the float unit, \<open>g\<close> the state of the random source and
  \<open>now\<close> the clock reading of line 289.
\<close>

definition HandleGenerateFileSingleMarker ::
  "float_unit \<Rightarrow> time \<Rightarrow> rng \<Rightarrow> int \<Rightarrow> Trkpt list \<Rightarrow> failure + GPXDataResult" where
  "HandleGenerateFileSingleMarker fp now g routeLength points =
     (if length points = 0 then Inl (Response500 ''No track points found in the route.'')
      else
        and_then (synthesizeProfiles fp g routeLength points)
          (\<lambda>(speedProfile, bpmProfileFloat, cadenceProfile, totalTimeSeconds).
        and_then (segment_loop fp points speedProfile totalTimeSeconds 0 [])
          (\<lambda>(interpolatedPoints, currentTime).
           assembleResult now speedProfile bpmProfileFloat cadenceProfile interpolatedPoints)))"

text \<open>The record that lines 265 to 333 build from non-empty profiles.\<close>

definition assembled :: "time \<Rightarrow> real list \<Rightarrow> real list \<Rightarrow> Trkpt list \<Rightarrow> GPXDataResult" where
  "assembled now sp bpm pts =
     \<lparr>Timestamps = map (\<lambda>i. now + int i * Second) [0..<length pts],
      BPMProfile = map trunc (take (length pts) bpm
                              @ replicate (length pts - length bpm) (last bpm)),
      PaceProfile = map pace_of_speed (take (length pts) sp)
                    @ replicate (length pts - length sp) 0,
      Route = map (\<lambda>pt. \<lparr>lat = Lat pt, lon = Lon pt, ele = Ele pt\<rparr>) pts\<rparr>"

subsection \<open>The elevation series in the words of the specification\<close>

text \<open>
  The whole seconds of a segment's traversal at the assumed speed, and the series the
  specification describes: for each consecutive pair of waypoints, in order, one value
  per whole second, each the pair's elevation delta divided by the number of seconds.
\<close>

definition whole_seconds :: "float_unit \<Rightarrow> Trkpt \<Rightarrow> Trkpt \<Rightarrow> int" where
  "whole_seconds fp p1 p2 =
     int_of_quotient fp (haversineDistance fp (Lat p1) (Lon p1) (Lat p2) (Lon p2)) AvgSpeed"

fun per_second_deltas :: "float_unit \<Rightarrow> Trkpt list \<Rightarrow> real list" where
  "per_second_deltas fp (p1 # p2 # ps) =
     replicate (nat (whole_seconds fp p1 p2))
       ((Ele p2 - Ele p1) / real_of_int (whole_seconds fp p1 p2))
     @ per_second_deltas fp (p2 # ps)"
| "per_second_deltas fp ps = []"

subsection \<open>Concrete inputs and predicates on inputs\<close>

text \<open>
  \<open>exact_unit\<close> computes \<open>a\<close> without error; \<open>ulp_unit\<close> returns one unit in the last
  place more than the exact \<open>a\<close>, which is what IEEE double arithmetic gives for the
  first hop of \<open>antipodal_route\<close> (exact \<open>a\<close> is 1, the float value is \<open>1 + 2^-52\<close>); both
  convert NaN as amd64 does.

  \<open>short_hops fp b points\<close>: the distance of every consecutive pair of waypoints is a
  number below \<open>b\<close>. \<open>all_numbers fp points\<close>: none of these distances is NaN.
\<close>

definition exact_unit :: float_unit where
  "exact_unit = \<lparr>round_a = (\<lambda>x. x), int_of_NaN = - (2 ^ 63)\<rparr>"

definition ulp_unit :: float_unit where
  "ulp_unit = \<lparr>round_a = (\<lambda>x. x * (1 + 1 / 2 ^ 52)), int_of_NaN = - (2 ^ 63)\<rparr>"

fun short_hops :: "float_unit \<Rightarrow> real \<Rightarrow> Trkpt list \<Rightarrow> bool" where
  "short_hops fp b (p1 # p2 # ps) =
     ((case haversineDistance fp (Lat p1) (Lon p1) (Lat p2) (Lon p2) of
         Metres d \<Rightarrow> d < b
       | NaN \<Rightarrow> False)
      \<and> short_hops fp b (p2 # ps))"
| "short_hops fp b ps = True"

fun all_numbers :: "float_unit \<Rightarrow> Trkpt list \<Rightarrow> bool" where
  "all_numbers fp (p1 # p2 # ps) =
     (haversineDistance fp (Lat p1) (Lon p1) (Lat p2) (Lon p2) \<noteq> NaN
      \<and> all_numbers fp (p2 # ps))"
| "all_numbers fp ps = True"

definition waypoint_north :: "real \<Rightarrow> Trkpt" where
  "waypoint_north deg = \<lparr>Lat = deg, Lon = 0, Ele = 0\<rparr>"

definition dense_route :: "Trkpt list" where
  "dense_route = map waypoint_north [0, 0.000005, 0.00001, 0.000015, 0.00002, 0.000025, 0.00003]"

definition start_point :: Trkpt where
  "start_point = waypoint_north 0"

definition near_point :: Trkpt where
  "near_point = waypoint_north 0.000005"

text \<open>Two waypoints about 3.3 m apart, the second 4 m higher.\<close>

definition summit_point :: Trkpt where
  "summit_point = \<lparr>Lat = 0.00003, Lon = 0, Ele = 4\<rparr>"

definition climb_route :: "Trkpt list" where
  "climb_route = [start_point, summit_point]"

definition antipodal_route :: "Trkpt list" where
  "antipodal_route =
     [\<lparr>Lat = 10, Lon = 0, Ele = 0\<rparr>, \<lparr>Lat = - 10, Lon = 180, Ele = 0\<rparr>,
      \<lparr>Lat = 0, Lon = 0, Ele = 0\<rparr>]"

definition low_rng :: rng where
  "low_rng = \<lparr>normal_tape = (\<lambda>i. - 10), intn_tape = (\<lambda>i. i), normal_pos = 0, intn_pos = 0\<rparr>"

section \<open>Properties of the primitives\<close>

lemma and_then_Inl [simp]: "and_then (Inl e) k = Inl e"
  by (simp add: and_then_def)

lemma and_then_Inr [simp]: "and_then (Inr x) k = k x"
  by (simp add: and_then_def)

lemma trunc_nonneg: "0 \<le> x \<Longrightarrow> 0 \<le> trunc x"
  by (simp add: trunc_def)

lemma trunc_zero [simp]: "trunc 0 = 0"
  by (simp add: trunc_def)

lemma haversine_arg_bounds:
  fixes A B v :: real
  defines "a \<equiv> sin ((B - A) / 2) * sin ((B - A) / 2) + cos A * cos B * sin v * sin v"
  shows "0 \<le> a \<and> a \<le> 1"
proof -
  define s where "s = sin v * sin v"
  have s0: "0 \<le> s" by (simp add: s_def)
  have s1: "s \<le> 1" unfolding s_def
    by (metis abs_sin_le_one abs_square_le_1 power2_eq_square)
  have half: "sin ((B - A) / 2) * sin ((B - A) / 2) = (1 - cos (B - A)) / 2"
  proof -
    have "cos (2 * ((B - A) / 2)) = 1 - 2 * (sin ((B - A) / 2))\<^sup>2"
      by (rule cos_double_sin)
    moreover have "2 * ((B - A) / 2) = B - A" by simp
    ultimately have "cos (B - A) = 1 - 2 * (sin ((B - A) / 2) * sin ((B - A) / 2))"
      by (simp only: power2_eq_square)
    then show ?thesis by argo
  qed
  have cd: "cos (B - A) = cos A * cos B + sin A * sin B"
    by (simp add: cos_diff mult.commute)
  have cs: "cos (B + A) = cos A * cos B - sin A * sin B"
    by (simp add: cos_add mult.commute)
  define c where "c = cos A * cos B"
  define d where "d = sin A * sin B"
  have b1: "c + d \<le> 1" "- 1 \<le> c + d" using cos_le_one [of "B - A"] cos_ge_minus_one [of "B - A"]
    by (simp_all add: cd c_def d_def)
  have b2: "c - d \<le> 1" "- 1 \<le> c - d" using cos_le_one [of "B + A"] cos_ge_minus_one [of "B + A"]
    by (simp_all add: cs c_def d_def)
  have a_eq: "a = (1 - c - d) / 2 + c * s"
    unfolding a_def half cd c_def d_def s_def by (simp add: algebra_simps)
  define m where "m = c * s"
  have "0 \<le> c * s \<and> c * s \<le> c \<or> c \<le> c * s \<and> c * s \<le> 0"
  proof (cases "0 \<le> c")
    case True
    then have "0 \<le> c * s" "c * s \<le> c * 1"
      using s0 s1 by (simp, intro mult_left_mono) simp_all
    then show ?thesis by simp
  next
    case False
    then have "c \<le> 0" by simp
    then have "c * s \<le> 0" "c * 1 \<le> c * s"
      using s0 s1 by (simp add: mult_nonpos_nonneg, intro mult_left_mono_neg) simp_all
    then show ?thesis by simp
  qed
  then have "0 \<le> m \<and> m \<le> c \<or> c \<le> m \<and> m \<le> 0"
    by (simp only: m_def)
  moreover have "a = (1 - c - d) / 2 + m" by (simp add: a_eq m_def)
  ultimately show ?thesis using b1 b2 by argo
qed

lemma math_Atan2_nonneg: "0 \<le> y \<Longrightarrow> 0 \<le> x \<Longrightarrow> 0 \<le> math_Atan2 y x"
  by (simp add: math_Atan2_def zero_le_arctan_iff)

lemma haversineDistance_cases:
  "haversineDistance fp lat1 lon1 lat2 lon2 = NaN
   \<or> (\<exists>d. haversineDistance fp lat1 lon1 lat2 lon2 = Metres d \<and> 0 \<le> d)"
proof -
  define a where "a = round_a fp
                (sin ((lat2 - lat1) * pi / 180 / 2) * sin ((lat2 - lat1) * pi / 180 / 2)
                 + cos (lat1 * pi / 180) * cos (lat2 * pi / 180)
                   * sin ((lon2 - lon1) * pi / 180 / 2) * sin ((lon2 - lon1) * pi / 180 / 2))"
  show ?thesis
  proof (cases "a < 0 \<or> 1 < a")
    case True
    then show ?thesis by (simp add: haversineDistance_def Let_def a_def)
  next
    case False
    then have "0 \<le> math_Atan2 (sqrt a) (sqrt (1 - a))"
      by (intro math_Atan2_nonneg) simp_all
    then show ?thesis using False by (simp add: haversineDistance_def Let_def a_def)
  qed
qed

lemma haversineDistance_nonneg:
  "haversineDistance fp lat1 lon1 lat2 lon2 = Metres d \<Longrightarrow> 0 \<le> d"
  using haversineDistance_cases [of fp lat1 lon1 lat2 lon2] by auto

text \<open>In exact arithmetic the distance is never NaN.\<close>

lemma haversineDistance_exact_number:
  "haversineDistance exact_unit lat1 lon1 lat2 lon2 \<noteq> NaN"
proof -
  define A where "A = lat1 * pi / 180"
  define B where "B = lat2 * pi / 180"
  define v where "v = (lon2 - lon1) * pi / 180 / 2"
  define a where "a = sin ((B - A) / 2) * sin ((B - A) / 2) + cos A * cos B * sin v * sin v"
  have ab: "0 \<le> a \<and> a \<le> 1" unfolding a_def by (rule haversine_arg_bounds)
  have eq: "(lat2 - lat1) * pi / 180 / 2 = (B - A) / 2"
    by (simp add: A_def B_def diff_divide_distrib left_diff_distrib)
  have "haversineDistance exact_unit lat1 lon1 lat2 lon2
        = (if a < 0 \<or> 1 < a then NaN
           else Metres (6371000 * (2 * math_Atan2 (sqrt a) (sqrt (1 - a)))))"
    unfolding haversineDistance_def Let_def a_def eq v_def A_def B_def exact_unit_def by simp
  then show ?thesis using ab by simp
qed

lemma all_numbers_exact: "all_numbers exact_unit points"
  by (induction exact_unit points rule: all_numbers.induct)
     (simp_all add: haversineDistance_exact_number)

lemma haversineDistance_meridian:
  assumes "lat1 \<le> lat2" and "lat2 - lat1 < 180"
  shows "haversineDistance exact_unit lat1 lo lat2 lo
         = Metres (6371000 * ((lat2 - lat1) * pi / 180))"
proof -
  define x where "x = (lat2 - lat1) * pi / 180 / 2"
  have x0: "0 \<le> x" using assms by (simp add: x_def)
  have "(lat2 - lat1) * pi < 180 * pi" using assms by simp
  then have x1: "x < pi / 2" by (simp add: x_def)
  have s: "0 \<le> sin x" using x0 x1 by (intro sin_ge_zero) simp_all
  have c: "0 < cos x" using x0 x1 by (intro cos_gt_zero_pi) simp_all
  have cc: "1 - sin x * sin x = cos x * cos x"
    using sin_cos_squared_add [of x] by (simp add: power2_eq_square)
  then have sq: "sqrt (1 - sin x * sin x) = cos x" using c by simp
  have le1: "\<not> (sin x * sin x < 0 \<or> 1 < sin x * sin x)"
    using cc by (smt (verit) zero_le_square)
  have at: "math_Atan2 (sin x) (cos x) = x"
    using c x0 x1 arctan_tan [of x] by (simp add: math_Atan2_def tan_def)
  have "haversineDistance exact_unit lat1 lo lat2 lo
        = Metres (6371000 * (2 * math_Atan2 (sin x) (cos x)))"
    unfolding haversineDistance_def Let_def x_def [symmetric] exact_unit_def
    using s sq le1 by simp
  then have "haversineDistance exact_unit lat1 lo lat2 lo = Metres (6371000 * (2 * x))"
    by (simp only: at)
  moreover have "2 * x = (lat2 - lat1) * pi / 180" by (simp add: x_def)
  ultimately show ?thesis by (simp only:)
qed

lemma hop_short:
  assumes "lat2 - lat1 = 0.000005"
  shows "\<exists>d. haversineDistance exact_unit lat1 0 lat2 0 = Metres d \<and> d < 1.35"
proof -
  have "haversineDistance exact_unit lat1 0 lat2 0
        = Metres (6371000 * ((lat2 - lat1) * pi / 180))"
    using assms by (intro haversineDistance_meridian) simp_all
  moreover have "6371000 * ((lat2 - lat1) * pi / 180) < 1.35"
    using pi_less_4 by (simp add: assms)
  ultimately show ?thesis by blast
qed

lemma hop_short_case:
  assumes "lat2 - lat1 = 0.000005"
  shows "(case haversineDistance exact_unit lat1 0 lat2 0 of Metres d \<Rightarrow> d < 1.35 | NaN \<Rightarrow> False)"
  using hop_short [OF assms] by auto

lemma dense_route_short: "short_hops exact_unit 1.35 dense_route"
  unfolding dense_route_def waypoint_north_def
  apply (simp only: list.map short_hops.simps Trkpt.select_convs)
  apply (intro conjI hop_short_case TrueI)
  apply simp_all
  done

lemma int_of_quotient_short:
  assumes "0 \<le> d" and "d < s"
  shows "int_of_quotient fp (Metres d) s = 0"
proof -
  have "0 \<le> d / s" "d / s < 1" using assms by simp_all
  then show ?thesis by (simp add: int_of_quotient_def trunc_def floor_eq_iff)
qed

lemma interpolatePoints_short:
  assumes "0 \<le> currentTime" and "currentTime < int (length speedProfile)"
    and "haversineDistance fp (Lat p1) (Lon p1) (Lat p2) (Lon p2) = Metres d"
    and "d < speedProfile ! nat currentTime"
  shows "\<exists>pt. interpolatePoints fp p1 p2 speedProfile totalTime currentTime = Inr [pt]"
proof -
  have d0: "0 \<le> d" using assms(3) by (rule haversineDistance_nonneg)
  have t: "int_of_quotient fp (Metres d) (speedProfile ! nat currentTime) = 0"
    using d0 assms(4) by (rule int_of_quotient_short)
  show ?thesis
    using assms(1,2) by (simp add: interpolatePoints_def index_def Let_def assms(3) t)
qed

lemma segment_duration_short:
  assumes "0 \<le> d" and "d < s"
  shows "segment_duration fp (Metres d) s = 0"
proof -
  have "0 < s" using assms by simp
  then show ?thesis
    using int_of_quotient_short [OF assms, of fp] by (simp add: segment_duration_def)
qed

lemma segment_loop_short_hops:
  assumes "\<forall>v \<in> set speedProfile. b \<le> v" and "short_hops fp b points"
    and "0 \<le> currentTime" and "currentTime < totalTimeSeconds"
    and "totalTimeSeconds \<le> int (length speedProfile)"
  shows "\<exists>pts. segment_loop fp points speedProfile totalTimeSeconds currentTime acc
                 = Inr (pts, currentTime)
               \<and> length pts = length acc + (length points - 1)"
  using assms
proof (induction fp points speedProfile totalTimeSeconds currentTime acc
       rule: segment_loop.induct)
  case (1 fp p1 p2 ps speedProfile totalTimeSeconds currentTime interpolatedPoints)
  let ?s = "speedProfile ! nat currentTime"
  have inb: "currentTime < int (length speedProfile)" using "1.prems" by simp
  have "?s \<in> set speedProfile" using "1.prems"(3) inb by (simp add: nat_less_iff)
  then have bs: "b \<le> ?s" using "1.prems"(1) by blast
  obtain d where hd: "haversineDistance fp (Lat p1) (Lon p1) (Lat p2) (Lon p2) = Metres d"
    and db: "d < b"
    using "1.prems"(2) by (auto split: distance.splits)
  have lt: "d < ?s" using db bs by simp
  have d0: "0 \<le> d" using hd by (rule haversineDistance_nonneg)
  obtain pt where ip:
    "interpolatePoints fp p1 p2 speedProfile totalTimeSeconds currentTime = Inr [pt]"
    using interpolatePoints_short [OF "1.prems"(3) inb hd lt] by blast
  have ix: "index speedProfile currentTime = Inr ?s"
    using "1.prems"(3) inb by (simp add: index_def)
  have du: "segment_duration fp (Metres d) ?s = 0"
    using d0 lt by (rule segment_duration_short)
  have "\<exists>pts. segment_loop fp (p2 # ps) speedProfile totalTimeSeconds currentTime
                 (interpolatedPoints @ [pt]) = Inr (pts, currentTime)
               \<and> length pts = length (interpolatedPoints @ [pt]) + (length (p2 # ps) - 1)"
    using "1.prems"
    by (intro "1.IH" [of "Metres d" 0 ?s currentTime "[pt]"]) (simp_all add: du hd)
  then show ?case using "1.prems"(4) by (simp add: ip ix du hd Let_def)
qed simp_all

text \<open>Bounds on \<open>pi\<close>, and the whole seconds of the climb of \<open>climb_route\<close>.\<close>

lemma pi_ge_3: "3 \<le> pi"
proof -
  have "sin (pi / 6) \<le> pi / 6" by (intro sin_x_le_x) simp
  then show ?thesis by (simp add: sin_30)
qed

lemma whole_seconds_climb: "whole_seconds exact_unit start_point summit_point = 2"
proof -
  have h: "haversineDistance exact_unit 0 0 0.00003 0
           = Metres (6371000 * ((0.00003 - 0) * pi / 180))"
    by (intro haversineDistance_meridian) simp_all
  have lo: "2 \<le> 6371000 * ((0.00003 - 0) * pi / 180) / 1.5" using pi_ge_3 by simp
  have hi: "6371000 * ((0.00003 - 0) * pi / 180) / 1.5 < 3" using pi_less_4 by simp
  have "trunc (6371000 * ((0.00003 - 0) * pi / 180) / 1.5) = 2"
    using lo hi by (simp add: trunc_def floor_eq_iff)
  then have "int_of_quotient exact_unit (Metres (6371000 * ((0.00003 - 0) * pi / 180))) 1.5 = 2"
    by (simp add: int_of_quotient_def)
  then show ?thesis
    unfolding whole_seconds_def start_point_def summit_point_def waypoint_north_def AvgSpeed_def
    by (simp only: Trkpt.select_convs h)
qed

section \<open>Properties of the profile generators\<close>

lemma draw_fluctuations_length: "draw_fluctuations n g = (xs, g1) \<Longrightarrow> length xs = n"
  by (induction n arbitrary: g xs g1) (auto split: prod.splits)

lemma createSpeedProfile_ok:
  assumes "1 \<le> totalSeconds"
  shows "\<exists>sp g1. createSpeedProfile totalSeconds avgSpeed speedDecrease g = Inr (sp, g1)
           \<and> length sp = nat totalSeconds \<and> (\<forall>v \<in> set sp. avgSpeed * 0.9 \<le> v)"
proof -
  obtain rf g1 where d: "draw_fluctuations (nat totalSeconds) g = (rf, g1)"
    by (cases "draw_fluctuations (nat totalSeconds) g")
  have len: "length rf = nat totalSeconds" using d by (rule draw_fluctuations_length)
  have st: "\<And>x. store rf 0 x = Inr (rf[0 := x])"
    using assms len by (simp add: store_def)
  show ?thesis
    using assms by (auto simp: createSpeedProfile_def d st Let_def len)
qed

lemma createSpeedProfile_panic_kind:
  assumes "totalSeconds \<le> 0"
  shows "createSpeedProfile totalSeconds avgSpeed speedDecrease g
         = Inl (Panic (if totalSeconds < 0 then MakeSliceLenOutOfRange else IndexOutOfRange))"
proof (cases "totalSeconds < 0")
  case True
  then show ?thesis by (simp add: createSpeedProfile_def)
next
  case False
  then have z: "totalSeconds = 0" using assms by simp
  show ?thesis by (simp add: createSpeedProfile_def z store_def)
qed

lemma profile_loop_ok:
  assumes "\<And>i h. t \<le> i \<Longrightarrow> i < n \<Longrightarrow> \<exists>v h1. sample i h = Inr (v, h1) \<and> P v"
    and "length prof = nat n" and "0 \<le> t" and "t \<le> n"
    and "\<forall>i < nat t. P (prof ! i)"
  shows "\<exists>prof1 g1. profile_loop sample t n prof g = Inr (prof1, g1)
           \<and> length prof1 = nat n \<and> (\<forall>v \<in> set prof1. P v)"
  using assms
proof (induction sample t n prof g rule: profile_loop.induct)
  case (1 sample t n prof g)
  show ?case
  proof (cases "t < n")
    case False
    then have "t = n" using "1.prems" by simp
    then have "\<forall>v \<in> set prof. P v"
      using "1.prems"(2,5) by (auto simp: in_set_conv_nth)
    then show ?thesis using False "1.prems"(2) by (subst profile_loop.simps) simp
  next
    case True
    obtain v h1 where s: "sample t g = Inr (v, h1)" and Pv: "P v"
      using "1.prems"(1) [of t g] True by auto
    have st: "store prof t v = Inr (prof[nat t := v])"
      using True "1.prems"(2,3) by (simp add: store_def)
    have inv: "\<forall>i < nat (t + 1). P ((prof[nat t := v]) ! i)"
    proof (intro allI impI)
      fix i assume "i < nat (t + 1)"
      then have "i < nat t \<or> i = nat t" using "1.prems"(3) by auto
      then show "P ((prof[nat t := v]) ! i)"
        using "1.prems"(2,3,5) Pv True by (auto simp: nth_list_update)
    qed
    have "\<exists>prof1 g1. profile_loop sample (t + 1) n (prof[nat t := v]) h1 = Inr (prof1, g1)
           \<and> length prof1 = nat n \<and> (\<forall>v \<in> set prof1. P v)"
    proof (rule "1.IH" [OF True s _ st])
      show "\<And>i h. t + 1 \<le> i \<Longrightarrow> i < n \<Longrightarrow> \<exists>v h1. sample i h = Inr (v, h1) \<and> P v"
        using "1.prems"(1) by simp
      show "length (prof[nat t := v]) = nat n" using "1.prems"(2) by simp
      show "0 \<le> t + 1" using "1.prems"(3) by simp
      show "t + 1 \<le> n" using True by simp
      show "\<forall>i < nat (t + 1). P ((prof[nat t := v]) ! i)" by (rule inv)
      show "(v, h1) = (v, h1)" by simp
    qed
    then show ?thesis using True s st by (subst profile_loop.simps) simp
  qed
qed

lemma Intn_3_range: "Intn 3 g = (r, g1) \<Longrightarrow> 0 \<le> r \<and> r \<le> 2"
  by (auto simp: Intn_def)

lemma bpm_sample_ok:
  assumes "0 \<le> t" and "t < int (length speedProfile)"
  shows "\<exists>v h1. bpm_sample totalSeconds avgBPM avgSpeed speedProfile elevationChanges t h
                  = Inr (v, h1) \<and> 60 \<le> v \<and> v \<le> 200"
  using assms by (auto simp: bpm_sample_def index_def Let_def split: prod.splits)

lemma cadence_sample_ok:
  assumes "0 \<le> t" and "t < int (length speedProfile)"
  shows "\<exists>v h1. cadence_sample avgCadence avgSpeed speedProfile elevationChanges t h
                  = Inr (v, h1) \<and> 30 \<le> v \<and> v \<le> 150"
  using assms by (auto simp: cadence_sample_def index_def Let_def split: prod.splits)

lemma createBPMProfile_ok:
  assumes "1 \<le> totalSeconds" and "totalSeconds \<le> int (length speedProfile)"
    and "60 \<le> avgBPM - 20" and "avgBPM - 20 \<le> 200"
  shows "\<exists>bpm g1. createBPMProfile totalSeconds avgBPM avgSpeed speedProfile elevationChanges g
                    = Inr (bpm, g1)
           \<and> length bpm = nat totalSeconds \<and> (\<forall>v \<in> set bpm. 60 \<le> v \<and> v \<le> 200)"
proof -
  let ?bpm1 = "(replicate (nat totalSeconds) (0::real))[0 := avgBPM - 20]"
  have "\<exists>bpm g1. profile_loop
            (bpm_sample totalSeconds avgBPM avgSpeed speedProfile elevationChanges)
            1 totalSeconds ?bpm1 g = Inr (bpm, g1)
          \<and> length bpm = nat totalSeconds \<and> (\<forall>v \<in> set bpm. 60 \<le> v \<and> v \<le> 200)"
  proof (rule profile_loop_ok)
    fix i h assume "1 \<le> i" "i < totalSeconds"
    then show "\<exists>v h1. bpm_sample totalSeconds avgBPM avgSpeed speedProfile elevationChanges i h
                  = Inr (v, h1) \<and> 60 \<le> v \<and> v \<le> 200"
      using assms(2) by (intro bpm_sample_ok) simp_all
  next
    show "\<forall>i < nat 1. 60 \<le> ?bpm1 ! i \<and> ?bpm1 ! i \<le> 200"
      using assms by simp
  qed (use assms in simp_all)
  then show ?thesis
    using assms(1) by (simp add: createBPMProfile_def make_slice_def store_def)
qed

lemma createCadenceProfile_ok:
  assumes "1 \<le> totalSeconds" and "totalSeconds \<le> int (length speedProfile)"
    and "31 \<le> avgCadence" and "avgCadence \<le> 149"
  shows "\<exists>cad g1. createCadenceProfile totalSeconds avgCadence avgSpeed speedProfile
                      elevationChanges g = Inr (cad, g1)
           \<and> length cad = nat totalSeconds \<and> (\<forall>v \<in> set cad. 30 \<le> v \<and> v \<le> 150)"
proof -
  obtain r h where i3: "Intn 3 g = (r, h)" by (cases "Intn 3 g")
  have r: "0 \<le> r \<and> r \<le> 2" using i3 by (rule Intn_3_range)
  let ?c1 = "(replicate (nat totalSeconds) (0::real))[0 := avgCadence + real_of_int (r - 1)]"
  have "\<exists>cad g1. profile_loop
            (cadence_sample avgCadence avgSpeed speedProfile elevationChanges)
            1 totalSeconds ?c1 h = Inr (cad, g1)
          \<and> length cad = nat totalSeconds \<and> (\<forall>v \<in> set cad. 30 \<le> v \<and> v \<le> 150)"
  proof (rule profile_loop_ok)
    fix i h assume "1 \<le> i" "i < totalSeconds"
    then show "\<exists>v h1. cadence_sample avgCadence avgSpeed speedProfile elevationChanges i h
                  = Inr (v, h1) \<and> 30 \<le> v \<and> v \<le> 150"
      using assms(2) by (intro cadence_sample_ok) simp_all
  next
    show "\<forall>i < nat 1. 30 \<le> ?c1 ! i \<and> ?c1 ! i \<le> 150"
      using assms r by simp
  qed (use assms in simp_all)
  then show ?thesis
    using assms(1) by (simp add: createCadenceProfile_def make_slice_def store_def i3)
qed

lemma profile_loop_keeps:
  assumes "profile_loop sample t n prof g = Inr (prof1, g1)" and "0 \<le> t" and "i < nat t"
  shows "prof1 ! i = prof ! i"
  using assms
proof (induction sample t n prof g rule: profile_loop.induct)
  case (1 sample t n prof g)
  show ?case
  proof (cases "t < n")
    case False
    then show ?thesis using "1.prems"(1) by (subst (asm) profile_loop.simps) simp
  next
    case True
    from "1.prems"(1) True obtain v h prof2 where s: "sample t g = Inr (v, h)"
      and st: "store prof t v = Inr prof2"
      and rec: "profile_loop sample (t + 1) n prof2 h = Inr (prof1, g1)"
      by (subst (asm) profile_loop.simps) (auto split: sum.splits prod.splits)
    have p2: "prof2 = prof[nat t := v]" using st by (auto simp: store_def split: if_splits)
    have "prof1 ! i = prof2 ! i"
      using "1.prems"(2,3) by (intro "1.IH" [OF True s _ st rec]) auto
    then show ?thesis using p2 "1.prems"(3) by simp
  qed
qed

lemma createBPMProfile_first:
  assumes "createBPMProfile totalSeconds avgBPM avgSpeed speedProfile elevationChanges g
           = Inr (bpm, g1)"
  shows "bpm ! 0 = avgBPM - 20"
proof -
  from assms obtain bpm0 where st: "store (replicate (nat totalSeconds) (0::real)) 0 (avgBPM - 20) = Inr bpm0"
    and lp: "profile_loop (bpm_sample totalSeconds avgBPM avgSpeed speedProfile elevationChanges)
               1 totalSeconds bpm0 g = Inr (bpm, g1)"
    by (auto simp: createBPMProfile_def make_slice_def split: if_splits sum.splits)
  have "bpm ! 0 = bpm0 ! 0" using lp by (rule profile_loop_keeps) simp_all
  moreover have "bpm0 ! 0 = avgBPM - 20"
    using st by (auto simp: store_def split: if_splits)
  ultimately show ?thesis by simp
qed

lemma profile_loop_range:
  assumes "profile_loop sample t n prof g = Inr (prof1, g1)"
    and "\<And>i h v h1. sample i h = Inr (v, h1) \<Longrightarrow> P v"
    and "length prof = nat n" and "0 \<le> t" and "t \<le> n"
    and "\<forall>i < nat t. P (prof ! i)"
  shows "length prof1 = nat n \<and> (\<forall>v \<in> set prof1. P v)"
  using assms
proof (induction sample t n prof g rule: profile_loop.induct)
  case (1 sample t n prof g)
  show ?case
  proof (cases "t < n")
    case False
    then have tn: "t = n" using "1.prems"(5) by simp
    have "prof1 = prof"
      using "1.prems"(1) False by (subst (asm) profile_loop.simps) simp
    moreover have "\<forall>v \<in> set prof. P v"
      using "1.prems"(3,6) tn by (auto simp: in_set_conv_nth)
    ultimately show ?thesis using "1.prems"(3) by simp
  next
    case True
    from "1.prems"(1) True obtain v h prof2 where s: "sample t g = Inr (v, h)"
      and st: "store prof t v = Inr prof2"
      and rec: "profile_loop sample (t + 1) n prof2 h = Inr (prof1, g1)"
      by (subst (asm) profile_loop.simps) (auto split: sum.splits prod.splits)
    have p2: "prof2 = prof[nat t := v]" using st by (auto simp: store_def split: if_splits)
    have Pv: "P v" using s by (rule "1.prems"(2))
    have inv: "\<forall>i < nat (t + 1). P (prof2 ! i)"
    proof (intro allI impI)
      fix i assume "i < nat (t + 1)"
      then have "i < nat t \<or> i = nat t" using "1.prems"(4) by auto
      then show "P (prof2 ! i)"
        using "1.prems"(3,4,6) Pv True by (auto simp: p2 nth_list_update)
    qed
    show ?thesis
    proof (rule "1.IH" [OF True s _ st rec])
      show "\<And>i h v h1. sample i h = Inr (v, h1) \<Longrightarrow> P v" by (rule "1.prems"(2))
      show "length prof2 = nat n" using "1.prems"(3) by (simp add: p2)
      show "0 \<le> t + 1" using "1.prems"(4) by simp
      show "t + 1 \<le> n" using True by simp
      show "\<forall>i < nat (t + 1). P (prof2 ! i)" by (rule inv)
      show "(v, h) = (v, h)" by simp
    qed
  qed
qed

lemma bpm_sample_range:
  assumes "bpm_sample totalSeconds avgBPM avgSpeed speedProfile elevationChanges t h = Inr (v, h1)"
  shows "60 \<le> v \<and> v \<le> 200"
  using assms by (auto simp: bpm_sample_def Let_def split: sum.splits prod.splits if_splits)

lemma cadence_sample_range:
  assumes "cadence_sample avgCadence avgSpeed speedProfile elevationChanges t h = Inr (v, h1)"
  shows "30 \<le> v \<and> v \<le> 150"
  using assms by (auto simp: cadence_sample_def Let_def split: sum.splits prod.splits if_splits)

lemma createBPMProfile_range:
  assumes "createBPMProfile totalSeconds avgBPM avgSpeed speedProfile elevationChanges g
           = Inr (bpm, g1)"
    and "60 \<le> avgBPM - 20" and "avgBPM - 20 \<le> 200"
  shows "1 \<le> totalSeconds \<and> length bpm = nat totalSeconds
         \<and> (\<forall>v \<in> set bpm. 60 \<le> v \<and> v \<le> 200)"
proof -
  let ?bpm0 = "(replicate (nat totalSeconds) (0::real))[0 := avgBPM - 20]"
  from assms(1) have n: "1 \<le> totalSeconds"
    and lp: "profile_loop (bpm_sample totalSeconds avgBPM avgSpeed speedProfile elevationChanges)
               1 totalSeconds ?bpm0 g = Inr (bpm, g1)"
    by (auto simp: createBPMProfile_def make_slice_def store_def split: if_splits)
  have "length bpm = nat totalSeconds \<and> (\<forall>v \<in> set bpm. 60 \<le> v \<and> v \<le> 200)"
  proof (rule profile_loop_range [OF lp])
    show "\<And>i h v h1. bpm_sample totalSeconds avgBPM avgSpeed speedProfile elevationChanges i h
            = Inr (v, h1) \<Longrightarrow> 60 \<le> v \<and> v \<le> 200"
      by (rule bpm_sample_range)
    show "\<forall>i < nat 1. 60 \<le> ?bpm0 ! i \<and> ?bpm0 ! i \<le> 200" using assms(2,3) n by simp
  qed (use n in simp_all)
  then show ?thesis using n by simp
qed

lemma createCadenceProfile_range:
  assumes "createCadenceProfile totalSeconds avgCadence avgSpeed speedProfile elevationChanges g
           = Inr (cad, g1)"
    and "31 \<le> avgCadence" and "avgCadence \<le> 149"
  shows "1 \<le> totalSeconds \<and> length cad = nat totalSeconds
         \<and> (\<forall>v \<in> set cad. 30 \<le> v \<and> v \<le> 150)"
proof -
  obtain r h where i3: "Intn 3 g = (r, h)" by (cases "Intn 3 g")
  have r: "0 \<le> r \<and> r \<le> 2" using i3 by (rule Intn_3_range)
  let ?c0 = "(replicate (nat totalSeconds) (0::real))[0 := avgCadence + real_of_int (r - 1)]"
  from assms(1) have n: "1 \<le> totalSeconds"
    and lp: "profile_loop (cadence_sample avgCadence avgSpeed speedProfile elevationChanges)
               1 totalSeconds ?c0 h = Inr (cad, g1)"
    by (auto simp: createCadenceProfile_def make_slice_def store_def i3 split: if_splits)
  have "length cad = nat totalSeconds \<and> (\<forall>v \<in> set cad. 30 \<le> v \<and> v \<le> 150)"
  proof (rule profile_loop_range [OF lp])
    show "\<And>i h v h1. cadence_sample avgCadence avgSpeed speedProfile elevationChanges i h
            = Inr (v, h1) \<Longrightarrow> 30 \<le> v \<and> v \<le> 150"
      by (rule cadence_sample_range)
    show "\<forall>i < nat 1. 30 \<le> ?c0 ! i \<and> ?c0 ! i \<le> 150" using assms(2,3) n r by simp
  qed (use n in simp_all)
  then show ?thesis using n by simp
qed

lemma trunc_range:
  assumes "real_of_int lo \<le> v" and "v \<le> real_of_int hi" and "0 \<le> lo"
  shows "lo \<le> trunc v \<and> trunc v \<le> hi"
proof -
  have "0 \<le> v" using assms by linarith
  then show ?thesis using assms by (simp add: trunc_def le_floor_iff floor_le_iff)
qed

lemma generator_panic_kind:
  assumes "totalSeconds \<le> 0"
  shows "createBPMProfile totalSeconds avgBPM avgSpeed speedProfile elevationChanges g
           = Inl (Panic (if totalSeconds < 0 then MakeSliceLenOutOfRange else IndexOutOfRange))
       \<and> createCadenceProfile totalSeconds avgCadence avgSpeed speedProfile elevationChanges g
           = Inl (Panic (if totalSeconds < 0 then MakeSliceLenOutOfRange else IndexOutOfRange))"
  using assms
  by (auto simp: createBPMProfile_def createCadenceProfile_def make_slice_def store_def
           split: prod.splits)

section \<open>Properties of the handler's stages\<close>

lemma elevation_segments_eq:
  "elevation_segments fp points acc = acc @ per_second_deltas fp points"
proof (induction fp points acc rule: elevation_segments.induct)
  case (1 fp p1 p2 ps elevationChanges)
  let ?n = "int_of_quotient fp (haversineDistance fp (Lat p1) (Lon p1) (Lat p2) (Lon p2)) AvgSpeed"
  have "replicate (nat ?n) (if ?n > 0 then (Ele p2 - Ele p1) / real_of_int ?n else 0)
        = replicate (nat ?n) ((Ele p2 - Ele p1) / real_of_int ?n)"
    by (cases "?n > 0") simp_all
  then show ?case using "1.IH" by (simp add: Let_def whole_seconds_def)
qed simp_all

lemma elevation_series_eq:
  assumes "0 \<le> totalTimeSeconds"
  shows "elevation_series fp points totalTimeSeconds
         = Inr (take (nat totalTimeSeconds)
                  (per_second_deltas fp points @ replicate (nat totalTimeSeconds) 0))"
  using assms
  by (auto simp: elevation_series_def pad_elevation_def slice_to_def elevation_segments_eq)

lemma elevation_series_ok:
  assumes "0 \<le> totalTimeSeconds"
  shows "\<exists>ec. elevation_series fp points totalTimeSeconds = Inr ec
           \<and> length ec = nat totalTimeSeconds"
  using assms by (simp add: elevation_series_eq)

lemma range_store_ok:
  "i + length src \<le> length dst \<Longrightarrow>
   range_store f i src dst = Inr (take i dst @ map f src @ drop (i + length src) dst)"
proof (induction src arbitrary: i dst)
  case Nil
  then show ?case by simp
next
  case (Cons v src)
  have st: "store dst (int i) (f v) = Inr (dst[i := f v])"
    using Cons.prems by (simp add: store_def)
  have "range_store f (Suc i) src (dst[i := f v])
        = Inr (take (Suc i) (dst[i := f v]) @ map f src
               @ drop (Suc i + length src) (dst[i := f v]))"
    using Cons.prems by (intro Cons.IH) simp
  moreover have "take (Suc i) (dst[i := f v]) = take i dst @ [f v]"
    using Cons.prems by (simp add: take_Suc_conv_app_nth)
  moreover have "drop (Suc i + length src) (dst[i := f v]) = drop (Suc i + length src) dst"
    by simp
  ultimately show ?case using st by simp
qed

lemma range_store_fill:
  "length src = n \<Longrightarrow> range_store f 0 src (replicate n z) = Inr (map f src)"
  by (simp add: range_store_ok)

lemma adjust_profile_ok:
  assumes "prof \<noteq> []"
  shows "adjust_profile prof (int n)
         = Inr (take n prof @ replicate (n - length prof) (last prof))"
proof (cases "length prof < n")
  case True
  have "index prof (int (length prof) - 1) = Inr (last prof)"
    using assms by (simp add: index_def last_conv_nth nat_diff_distrib')
  then show ?thesis using True by (simp add: adjust_profile_def)
next
  case False
  then show ?thesis by (simp add: adjust_profile_def slice_to_def)
qed

lemma adjust_profile_range:
  assumes "prof \<noteq> []" and "\<forall>v \<in> set prof. P v"
  shows "\<exists>padded. adjust_profile prof (int n) = Inr padded \<and> length padded = n
           \<and> (\<forall>v \<in> set padded. P v)"
proof -
  have "P (last prof)" using assms by simp
  moreover have "\<forall>v \<in> set (take n prof). P v" using assms(2) by (auto dest: in_set_takeD)
  ultimately show ?thesis by (auto simp: adjust_profile_ok [OF assms(1)])
qed

lemma cut_speed_ok: "cut_speed sp (int n) = Inr (take n sp)"
  by (simp add: cut_speed_def slice_to_def)

lemma generateTimestamps_ok:
  "generateTimestamps (int n) k now = Inr (map (\<lambda>i. now + (int i * k) * Second) [0..<n])"
  by (simp add: generateTimestamps_def)

lemma assembleResult_ok:
  assumes "bpm \<noteq> []" and "cad \<noteq> []"
  shows "assembleResult now sp bpm cad pts = Inr (assembled now sp bpm pts)"
proof -
  let ?n = "length pts"
  let ?b = "take ?n bpm @ replicate (?n - length bpm) (last bpm)"
  have lb: "length ?b = ?n" by simp
  have b: "range_store trunc 0 ?b (replicate ?n 0) = Inr (map trunc ?b)"
    using lb by (rule range_store_fill)
  have p: "range_store pace_of_speed 0 (take ?n sp) (replicate ?n 0)
           = Inr (map pace_of_speed (take ?n sp) @ replicate (?n - length sp) 0)"
    by (simp add: range_store_ok min_def)
  have r: "range_store (\<lambda>pt. \<lparr>lat = Lat pt, lon = Lon pt, ele = Ele pt\<rparr>) 0 pts
             (replicate ?n \<lparr>lat = 0, lon = 0, ele = 0\<rparr>)
           = Inr (map (\<lambda>pt. \<lparr>lat = Lat pt, lon = Lon pt, ele = Ele pt\<rparr>) pts)"
    by (rule range_store_fill) simp
  show ?thesis
    unfolding assembleResult_def assembled_def Let_def
    by (simp only: adjust_profile_ok [OF assms(1)] adjust_profile_ok [OF assms(2)]
          generateTimestamps_ok cut_speed_ok and_then_Inr make_slice_def)
       (simp add: b p r)
qed

lemma interpolatePoints_ok:
  assumes "0 \<le> currentTime" and "speedProfile \<noteq> []"
  shows "\<exists>newPoints. interpolatePoints fp p1 p2 speedProfile totalTime currentTime
                      = Inr newPoints"
  using assms by (auto simp: interpolatePoints_def index_def Let_def)

lemma interpolatePoints_negative_time:
  assumes "currentTime < 0"
  shows "interpolatePoints fp p1 p2 speedProfile totalTime currentTime
         = Inl (Panic IndexOutOfRange)"
  using assms by (simp add: interpolatePoints_def index_def Let_def)

lemma interpolatePoints_NaN:
  assumes "haversineDistance fp (Lat p1) (Lon p1) (Lat p2) (Lon p2) = NaN"
    and "int_of_NaN fp < 0" and "0 \<le> currentTime" and "currentTime < int (length speedProfile)"
  shows "interpolatePoints fp p1 p2 speedProfile totalTime currentTime = Inr []"
  using assms by (simp add: interpolatePoints_def index_def Let_def int_of_quotient_def)

lemma segment_duration_nonneg:
  assumes "0 < speed" and "0 \<le> d"
  shows "0 \<le> segment_duration fp (Metres d) speed"
  using assms by (simp add: segment_duration_def int_of_quotient_def trunc_nonneg)

lemma segment_loop_ok:
  assumes "\<forall>v \<in> set speedProfile. 0 < v" and "all_numbers fp points"
    and "0 \<le> currentTime" and "currentTime < totalTimeSeconds"
    and "totalTimeSeconds \<le> int (length speedProfile)"
  shows "\<exists>pts ct. segment_loop fp points speedProfile totalTimeSeconds currentTime acc
                    = Inr (pts, ct)"
  using assms
proof (induction fp points speedProfile totalTimeSeconds currentTime acc
       rule: segment_loop.induct)
  case (1 fp p1 p2 ps speedProfile totalTimeSeconds currentTime interpolatedPoints)
  have ne: "speedProfile \<noteq> []" using "1.prems" by auto
  obtain newPoints where ip:
    "interpolatePoints fp p1 p2 speedProfile totalTimeSeconds currentTime = Inr newPoints"
    using interpolatePoints_ok [OF "1.prems"(3) ne] by blast
  have ix: "index speedProfile currentTime = Inr (speedProfile ! nat currentTime)"
    using "1.prems" by (simp add: index_def)
  have pos: "0 < speedProfile ! nat currentTime"
    using "1.prems" by (simp add: nat_less_iff)
  obtain x where hx: "haversineDistance fp (Lat p1) (Lon p1) (Lat p2) (Lon p2) = Metres x"
    and x0: "0 \<le> x"
    using "1.prems"(2) haversineDistance_cases [of fp "Lat p1" "Lon p1" "Lat p2" "Lon p2"]
    by auto
  define d where "d = segment_duration fp (Metres x) (speedProfile ! nat currentTime)"
  have d0: "0 \<le> d" unfolding d_def using pos x0 by (rule segment_duration_nonneg)
  show ?case
  proof (cases "currentTime + d \<ge> totalTimeSeconds")
    case True
    then show ?thesis by (simp add: ip ix hx Let_def d_def)
  next
    case False
    have "\<exists>pts ct. segment_loop fp (p2 # ps) speedProfile totalTimeSeconds (currentTime + d)
                      (interpolatedPoints @ newPoints) = Inr (pts, ct)"
      using "1.prems" d0 False
      by (intro "1.IH") (simp_all add: d_def hx)
    then show ?thesis using False by (simp add: ip ix hx Let_def d_def)
  qed
qed simp_all

lemma horizon_6: "horizon 6 = 5"
  by (simp add: horizon_def AvgSpeed_def trunc_def)

lemma synthesizeProfiles_ok:
  assumes "3 \<le> horizon routeLength"
  shows "\<exists>sp bpm cad. synthesizeProfiles fp g routeLength points
                         = Inr (sp, bpm, cad, horizon routeLength - 2)
           \<and> length sp = nat (horizon routeLength)
           \<and> length bpm = nat (horizon routeLength - 2)
           \<and> length cad = nat (horizon routeLength - 2)
           \<and> (\<forall>v \<in> set sp. AvgSpeed * 0.9 \<le> v)
           \<and> (\<forall>v \<in> set bpm. 60 \<le> v \<and> v \<le> 200)
           \<and> (\<forall>v \<in> set cad. 30 \<le> v \<and> v \<le> 150)"
proof -
  let ?T = "horizon routeLength"
  obtain sp g1 where sp: "createSpeedProfile ?T AvgSpeed 0.2 g = Inr (sp, g1)"
    and lsp: "length sp = nat ?T" and rsp: "\<forall>v \<in> set sp. AvgSpeed * 0.9 \<le> v"
    using createSpeedProfile_ok [of ?T AvgSpeed "0.2" g] assms by auto
  obtain ec where ec: "elevation_series fp points ?T = Inr ec"
    using elevation_series_ok [of ?T fp points] assms by auto
  have le: "?T - 2 \<le> int (length sp)" using lsp assms by simp
  obtain bpm g2 where bpm: "createBPMProfile (?T - 2) AvgBPM AvgSpeed sp ec g1 = Inr (bpm, g2)"
    and lbpm: "length bpm = nat (?T - 2)" and rbpm: "\<forall>v \<in> set bpm. 60 \<le> v \<and> v \<le> 200"
    using createBPMProfile_ok [of "?T - 2" sp AvgBPM AvgSpeed ec g1] assms le
    by (auto simp: AvgBPM_def)
  obtain cad g3 where cad:
    "createCadenceProfile (?T - 2) AvgCadence AvgSpeed sp ec g2 = Inr (cad, g3)"
    and lcad: "length cad = nat (?T - 2)" and rcad: "\<forall>v \<in> set cad. 30 \<le> v \<and> v \<le> 150"
    using createCadenceProfile_ok [of "?T - 2" sp AvgCadence AvgSpeed ec g2] assms le
    by (auto simp: AvgCadence_def)
  have "synthesizeProfiles fp g routeLength points = Inr (sp, bpm, cad, ?T - 2)"
    by (simp only: synthesizeProfiles_def Let_def sp ec bpm cad and_then_Inr prod.case)
  then show ?thesis using lsp lbpm lcad rsp rbpm rcad by blast
qed

lemma synthesizeProfiles_panic_kind:
  assumes "horizon routeLength < 3"
  shows "synthesizeProfiles fp g routeLength points
         = Inl (Panic (if horizon routeLength < 0 \<or> horizon routeLength = 1
                       then MakeSliceLenOutOfRange else IndexOutOfRange))"
proof (cases "horizon routeLength \<le> 0")
  case True
  have "synthesizeProfiles fp g routeLength points
        = Inl (Panic (if horizon routeLength < 0 then MakeSliceLenOutOfRange
                      else IndexOutOfRange))"
    by (simp only: synthesizeProfiles_def Let_def createSpeedProfile_panic_kind [OF True]
          and_then_Inl)
  then show ?thesis using True by simp
next
  case False
  let ?T = "horizon routeLength"
  obtain sp g1 where sp: "createSpeedProfile ?T AvgSpeed 0.2 g = Inr (sp, g1)"
    using createSpeedProfile_ok [of ?T AvgSpeed "0.2" g] False by auto
  obtain ec where ec: "elevation_series fp points ?T = Inr ec"
    using elevation_series_ok [of ?T fp points] False by auto
  have le: "?T - 2 \<le> 0" using assms by simp
  have "createBPMProfile (?T - 2) AvgBPM AvgSpeed sp ec g1
        = Inl (Panic (if ?T - 2 < 0 then MakeSliceLenOutOfRange else IndexOutOfRange))"
    using generator_panic_kind [OF le, of AvgBPM AvgSpeed sp ec g1] by simp
  then have "synthesizeProfiles fp g routeLength points
        = Inl (Panic (if ?T - 2 < 0 then MakeSliceLenOutOfRange else IndexOutOfRange))"
    by (simp only: synthesizeProfiles_def Let_def sp ec and_then_Inr and_then_Inl prod.case)
  moreover have "?T - 2 < 0 \<longleftrightarrow> ?T = 1" using False assms by auto
  ultimately show ?thesis using False by simp
qed

lemma handler_panic_kind:
  assumes "points \<noteq> []" and "horizon routeLength < 3"
  shows "HandleGenerateFileSingleMarker fp now g routeLength points
         = Inl (Panic (if horizon routeLength < 0 \<or> horizon routeLength = 1
                       then MakeSliceLenOutOfRange else IndexOutOfRange))"
  using assms(1)
  by (simp add: HandleGenerateFileSingleMarker_def synthesizeProfiles_panic_kind [OF assms(2)])

text \<open>
  With waypoints and a horizon of at least 3 the profiles are generated, and the run
  ends as the loop over the segments does: with its panic, or with the record
  assembled from the points it returns.
\<close>

lemma handler_run:
  assumes "points \<noteq> []" and "3 \<le> horizon routeLength"
  shows "\<exists>sp bpm cad.
           synthesizeProfiles fp g routeLength points
             = Inr (sp, bpm, cad, horizon routeLength - 2)
         \<and> length sp = nat (horizon routeLength)
         \<and> length bpm = nat (horizon routeLength - 2)
         \<and> (\<forall>v \<in> set sp. AvgSpeed * 0.9 \<le> v)
         \<and> (\<forall>v \<in> set bpm. 60 \<le> v \<and> v \<le> 200)
         \<and> (\<forall>now. HandleGenerateFileSingleMarker fp now g routeLength points =
               (case segment_loop fp points sp (horizon routeLength - 2) 0 [] of
                  Inl e \<Rightarrow> Inl e
                | Inr (pts, ct) \<Rightarrow> Inr (assembled now sp bpm pts)))"
proof -
  let ?T = "horizon routeLength"
  obtain sp bpm cad where
    sy: "synthesizeProfiles fp g routeLength points = Inr (sp, bpm, cad, ?T - 2)"
    and lsp: "length sp = nat ?T" and lbpm: "length bpm = nat (?T - 2)"
    and lcad: "length cad = nat (?T - 2)"
    and rsp: "\<forall>v \<in> set sp. AvgSpeed * 0.9 \<le> v"
    and rbpm: "\<forall>v \<in> set bpm. 60 \<le> v \<and> v \<le> 200"
    using synthesizeProfiles_ok [OF assms(2), of fp g points] by blast
  have ne: "bpm \<noteq> []" "cad \<noteq> []" using lbpm lcad assms(2) by auto
  have run: "HandleGenerateFileSingleMarker fp now g routeLength points =
               (case segment_loop fp points sp (?T - 2) 0 [] of
                  Inl e \<Rightarrow> Inl e
                | Inr (pts, ct) \<Rightarrow> Inr (assembled now sp bpm pts))" for now
    using assms(1)
    by (simp add: HandleGenerateFileSingleMarker_def sy assembleResult_ok [OF ne]
          and_then_def split: sum.splits prod.splits)
  show ?thesis
    by (rule exI [of _ sp], rule exI [of _ bpm], rule exI [of _ cad])
       (intro conjI sy lsp lbpm rsp rbpm allI run)
qed

lemma handler_ok:
  assumes "points \<noteq> []" and "3 \<le> horizon routeLength" and "all_numbers fp points"
  shows "\<exists>sp bpm cad pts ct.
           synthesizeProfiles fp g routeLength points
             = Inr (sp, bpm, cad, horizon routeLength - 2)
         \<and> length sp = nat (horizon routeLength)
         \<and> length bpm = nat (horizon routeLength - 2)
         \<and> (\<forall>v \<in> set sp. AvgSpeed * 0.9 \<le> v)
         \<and> (\<forall>v \<in> set bpm. 60 \<le> v \<and> v \<le> 200)
         \<and> segment_loop fp points sp (horizon routeLength - 2) 0 [] = Inr (pts, ct)
         \<and> (\<forall>now. HandleGenerateFileSingleMarker fp now g routeLength points
                    = Inr (assembled now sp bpm pts))"
proof -
  let ?T = "horizon routeLength"
  obtain sp bpm cad where
    sy: "synthesizeProfiles fp g routeLength points = Inr (sp, bpm, cad, ?T - 2)"
    and lsp: "length sp = nat ?T" and lbpm: "length bpm = nat (?T - 2)"
    and rsp: "\<forall>v \<in> set sp. AvgSpeed * 0.9 \<le> v"
    and rbpm: "\<forall>v \<in> set bpm. 60 \<le> v \<and> v \<le> 200"
    and run: "\<forall>now. HandleGenerateFileSingleMarker fp now g routeLength points =
               (case segment_loop fp points sp (?T - 2) 0 [] of
                  Inl e \<Rightarrow> Inl e
                | Inr (pts, ct) \<Rightarrow> Inr (assembled now sp bpm pts))"
    using handler_run [OF assms(1,2), of fp g] by blast
  have pos: "\<forall>v \<in> set sp. 0 < v" using rsp by (auto simp: AvgSpeed_def)
  obtain pts ct where sl: "segment_loop fp points sp (?T - 2) 0 [] = Inr (pts, ct)"
    using segment_loop_ok [OF pos assms(3), of 0 "?T - 2" "[]"] assms(2) lsp by auto
  have "\<forall>now. HandleGenerateFileSingleMarker fp now g routeLength points
              = Inr (assembled now sp bpm pts)"
    using run by (simp add: sl)
  then show ?thesis using sy lsp lbpm rsp rbpm sl by blast
qed

section \<open>Facts about the concrete inputs\<close>

lemma horizon_6_ge: "3 \<le> horizon 6"
  by (simp add: horizon_6)

lemma horizon_values: "horizon 0 = 0" "horizon 2 = 1" "horizon 3 = 2" "horizon (- 3) = - 2"
  by (simp_all add: horizon_def AvgSpeed_def trunc_def)

lemma dense_route_nonempty: "dense_route \<noteq> []"
  by (simp add: dense_route_def)

lemma dense_route_length: "length dense_route = 7"
  by (simp add: dense_route_def)

lemma near_point_short: "short_hops exact_unit 1.35 [start_point, near_point]"
  unfolding start_point_def near_point_def waypoint_north_def
  apply (simp only: short_hops.simps Trkpt.select_convs)
  apply (intro conjI hop_short_case TrueI)
  apply simp
  done

lemma pace_of_speed_nonzero: "pace_of_speed s \<noteq> 0"
  by (simp add: pace_of_speed_def)

lemma handler_dense_route:
  assumes "short_hops fp 1.35 dense_route"
  shows "\<exists>sp bpm (pts :: Trkpt list).
           length sp = 5 \<and> length pts = 6
         \<and> (\<forall>now. HandleGenerateFileSingleMarker fp now g 6 dense_route
                    = Inr (assembled now sp bpm pts))"
proof -
  obtain sp bpm cad where
    lsp: "length sp = nat (horizon 6)"
    and rsp: "\<forall>v \<in> set sp. AvgSpeed * 0.9 \<le> v"
    and run: "\<forall>now. HandleGenerateFileSingleMarker fp now g 6 dense_route =
               (case segment_loop fp dense_route sp (horizon 6 - 2) 0 [] of
                  Inl e \<Rightarrow> Inl e
                | Inr (pts, ct) \<Rightarrow> Inr (assembled now sp bpm pts))"
    using handler_run [OF dense_route_nonempty horizon_6_ge, of fp g] by blast
  have b: "\<forall>v \<in> set sp. 1.35 \<le> v" using rsp by (simp add: AvgSpeed_def)
  obtain pts where sl: "segment_loop fp dense_route sp (horizon 6 - 2) 0 [] = Inr (pts, 0)"
    and "length pts = length ([]::Trkpt list) + (length dense_route - 1)"
    using segment_loop_short_hops [OF b assms, of 0 "horizon 6 - 2" "[]"] lsp
    by (auto simp: horizon_6)
  then have lp: "length pts = 6" by (simp add: dense_route_length)
  have ls: "length sp = 5" using lsp by (simp add: horizon_6)
  have r: "\<forall>now. HandleGenerateFileSingleMarker fp now g 6 dense_route
                 = Inr (assembled now sp bpm pts)"
    using run by (simp add: sl)
  show ?thesis
    by (rule exI [of _ sp], rule exI [of _ bpm], rule exI [of _ pts])
       (intro conjI ls lp r)
qed

text \<open>
  The first hop of \<open>antipodal_route\<close>: the exact \<open>a\<close> is \<open>sin\<^sup>2 + cos\<^sup>2 = 1\<close>, one unit in
  the last place more is above 1, the distance is NaN. The run then panics at the
  second hop.
\<close>

lemma antipodal_hop_NaN: "haversineDistance ulp_unit 10 0 (- 10) 180 = NaN"
proof -
  define x :: real where "x = pi / 18"
  have e1: "((- 10 - 10) * pi / 180 / 2 :: real) = - x" by (simp add: x_def)
  have e2: "(10 * pi / 180 :: real) = x" "(- 10 * pi / 180 :: real) = - x"
    by (simp_all add: x_def)
  have e3: "((180 - 0) * pi / 180 / 2 :: real) = pi / 2" by simp
  have a1: "sin (- x) * sin (- x) + cos x * cos (- x) * sin (pi / 2) * sin (pi / 2) = 1"
    using sin_cos_squared_add [of x] by (simp add: power2_eq_square)
  have "round_a ulp_unit 1 > 1" by (simp add: ulp_unit_def)
  then show ?thesis
    unfolding haversineDistance_def Let_def e1 e2 e3 a1 by simp
qed

lemma handler_antipodal:
  "HandleGenerateFileSingleMarker ulp_unit now g 6 antipodal_route
   = Inl (Panic IndexOutOfRange)"
proof -
  have ne: "antipodal_route \<noteq> []" by (simp add: antipodal_route_def)
  obtain sp bpm cad where
    lsp: "length sp = nat (horizon 6)"
    and rsp: "\<forall>v \<in> set sp. AvgSpeed * 0.9 \<le> v"
    and run: "\<forall>now. HandleGenerateFileSingleMarker ulp_unit now g 6 antipodal_route =
               (case segment_loop ulp_unit antipodal_route sp (horizon 6 - 2) 0 [] of
                  Inl e \<Rightarrow> Inl e
                | Inr (pts, ct) \<Rightarrow> Inr (assembled now sp bpm pts))"
    using handler_run [OF ne horizon_6_ge, of ulp_unit g] by blast
  have l5: "length sp = 5" using lsp by (simp add: horizon_6)
  have "sp ! 0 \<in> set sp" using l5 by (intro nth_mem) simp
  then have s0: "0 < sp ! 0" using rsp by (auto simp: AvgSpeed_def)
  have ix: "index sp 0 = Inr (sp ! 0)" using l5 by (simp add: index_def)
  have neg: "int_of_NaN ulp_unit < 0" by (simp add: ulp_unit_def)
  let ?A = "\<lparr>Lat = 10, Lon = 0, Ele = 0\<rparr>"
  let ?B = "\<lparr>Lat = - 10, Lon = 180, Ele = 0\<rparr>"
  let ?C = "\<lparr>Lat = 0, Lon = 0, Ele = 0\<rparr>"
  have hn: "haversineDistance ulp_unit (Lat ?A) (Lon ?A) (Lat ?B) (Lon ?B) = NaN"
    by (simp only: Trkpt.select_convs antipodal_hop_NaN)
  have ip: "interpolatePoints ulp_unit ?A ?B sp 3 0 = Inr []"
    using hn neg l5 by (intro interpolatePoints_NaN) simp_all
  have du: "segment_duration ulp_unit NaN (sp ! 0) = int_of_NaN ulp_unit"
    using s0 by (simp add: segment_duration_def int_of_quotient_def)
  have nx: "interpolatePoints ulp_unit ?B ?C sp 3 (int_of_NaN ulp_unit)
            = Inl (Panic IndexOutOfRange)"
    using neg by (rule interpolatePoints_negative_time)
  have "segment_loop ulp_unit [?A, ?B, ?C] sp 3 0 [] = Inl (Panic IndexOutOfRange)"
    using neg by (simp add: ip ix hn du nx Let_def del: Trkpt.select_convs)
  then show ?thesis using run by (simp add: antipodal_route_def horizon_6)
qed

lemma climb_deltas: "per_second_deltas exact_unit climb_route = [2, 2]"
proof -
  have "per_second_deltas exact_unit [start_point, summit_point]
        = replicate (nat 2) ((Ele summit_point - Ele start_point) / real_of_int 2)"
    by (simp only: per_second_deltas.simps whole_seconds_climb append_Nil2)
  then show ?thesis
    by (simp add: climb_route_def start_point_def summit_point_def waypoint_north_def
          numeral_2_eq_2)
qed

section \<open>The properties of the specification\<close>

text \<open>
  C1. Whenever the handler returns a record, the waypoint list was not empty, the
  inflated horizon was at least 3, and the timestamps, the heart rates, the paces and
  the route of the record all have the length of the interpolated trajectory (the
  points returned by the loop over the segments): a record with unequal lengths is
  never returned. This holds for every float unit, clock reading and state of the
  random source.
\<close>

theorem C1_sequences_equal_length:
  assumes "HandleGenerateFileSingleMarker fp now g routeLength points = Inr r"
  shows "points \<noteq> [] \<and> 3 \<le> horizon routeLength
       \<and> (\<exists>sp bpm cad pts ct.
             synthesizeProfiles fp g routeLength points
               = Inr (sp, bpm, cad, horizon routeLength - 2)
           \<and> segment_loop fp points sp (horizon routeLength - 2) 0 [] = Inr (pts, ct)
           \<and> length (Timestamps r) = length pts
           \<and> length (BPMProfile r) = length pts
           \<and> length (PaceProfile r) = length pts
           \<and> length (Route r) = length pts)"
proof -
  have ne: "points \<noteq> []"
    using assms by (auto simp: HandleGenerateFileSingleMarker_def)
  have "\<not> horizon routeLength < 3"
    using handler_panic_kind [OF ne, of routeLength fp now g] assms by auto
  then have h3: "3 \<le> horizon routeLength" by simp
  obtain sp bpm cad where
    sy: "synthesizeProfiles fp g routeLength points
           = Inr (sp, bpm, cad, horizon routeLength - 2)"
    and lbpm: "length bpm = nat (horizon routeLength - 2)"
    and run: "\<forall>now. HandleGenerateFileSingleMarker fp now g routeLength points =
               (case segment_loop fp points sp (horizon routeLength - 2) 0 [] of
                  Inl e \<Rightarrow> Inl e
                | Inr (pts, ct) \<Rightarrow> Inr (assembled now sp bpm pts))"
    using handler_run [OF ne h3, of fp g] by blast
  obtain pts ct where sl: "segment_loop fp points sp (horizon routeLength - 2) 0 [] = Inr (pts, ct)"
    and r: "r = assembled now sp bpm pts"
    using run assms by (auto split: sum.splits prod.splits)
  have "length (Timestamps r) = length pts \<and> length (BPMProfile r) = length pts
        \<and> length (PaceProfile r) = length pts \<and> length (Route r) = length pts"
    by (auto simp: r assembled_def)
  then show ?thesis using ne h3 sy sl by blast
qed

theorem C1_sequences_equal_length_witness:
  "\<exists>r. HandleGenerateFileSingleMarker exact_unit 0 low_rng 6 dense_route = Inr r
      \<and> length (Timestamps r) = 6
      \<and> length (BPMProfile r) = 6
      \<and> length (PaceProfile r) = 6
      \<and> length (Route r) = 6"
proof -
  obtain sp bpm and pts :: "Trkpt list" where lp: "length pts = 6"
    and r: "HandleGenerateFileSingleMarker exact_unit 0 low_rng 6 dense_route
            = Inr (assembled 0 sp bpm pts)"
    using handler_dense_route [OF dense_route_short, of low_rng] by blast
  have l: "length (Route (assembled 0 sp bpm pts)) = 6" by (simp add: assembled_def lp)
  from C1_sequences_equal_length [OF r]
  have "length (Timestamps (assembled 0 sp bpm pts)) = length (Route (assembled 0 sp bpm pts))
      \<and> length (BPMProfile (assembled 0 sp bpm pts)) = length (Route (assembled 0 sp bpm pts))
      \<and> length (PaceProfile (assembled 0 sp bpm pts)) = length (Route (assembled 0 sp bpm pts))"
    by auto
  then show ?thesis using r l by auto
qed

text \<open>
  C2. The pace series is not derived from a padded speed profile: lines 305 to 317 cut
  the speed profile when it is longer than the trajectory and leave it as it is when it
  is shorter, so the pace entries past its end keep the zero that \<^verbatim>\<open>make\<close> wrote.
  On a 6 m request whose route has seven waypoints about 0.56 m apart, the horizon is 5,
  the trajectory has 6 samples, and the sixth pace is 0: neither the sentinel 999 nor
  \<open>1000 / (60 s)\<close> of any speed \<open>s\<close>. This holds for every clock reading, every state
  of the random source and every float unit that computes the six hops as numbers
  below 1.35 m, as exact arithmetic does.
\<close>

theorem C2_pace_entry_left_underived:
  assumes "short_hops fp 1.35 dense_route"
  shows "\<exists>r. HandleGenerateFileSingleMarker fp now g 6 dense_route = Inr r
           \<and> length (Route r) = 6 \<and> length (PaceProfile r) = 6
           \<and> PaceProfile r ! 5 = 0
           \<and> (\<forall>s. pace_of_speed s \<noteq> PaceProfile r ! 5)"
proof -
  obtain sp bpm and pts :: "Trkpt list" where l: "length sp = 5" "length pts = 6"
    and r: "HandleGenerateFileSingleMarker fp now g 6 dense_route
            = Inr (assembled now sp bpm pts)"
    using handler_dense_route [OF assms, of g] by blast
  have "(map pace_of_speed (take (length pts) sp) @ replicate (length pts - length sp) 0) ! 5
        = (0::real)"
    using l by (simp add: nth_append)
  then show ?thesis using r l by (simp add: assembled_def pace_of_speed_nonzero)
qed

theorem C2_pace_entry_left_underived_witness:
  "short_hops exact_unit 1.35 dense_route
   \<and> (\<forall>now g. \<exists>r. HandleGenerateFileSingleMarker exact_unit now g 6 dense_route = Inr r
          \<and> length (Route r) = 6 \<and> length (PaceProfile r) = 6
          \<and> PaceProfile r ! 5 = 0
          \<and> (\<forall>s. pace_of_speed s \<noteq> PaceProfile r ! 5))"
  using C2_pace_entry_left_underived [OF dense_route_short] dense_route_short
  by blast

text \<open>
  C3, as amended. The three profiles do not have one length: for an inflated horizon
  \<open>T\<close> of at least 3 the speed profile has \<open>T\<close> samples, and the heart-rate and the
  cadence profile have \<open>T - 2\<close> each (line 240 lowers \<^verbatim>\<open>totalTimeSeconds\<close> by 2 before
  they are generated).
\<close>

theorem C3_profile_lengths:
  assumes "3 \<le> horizon routeLength"
  shows "\<exists>sp bpm cad.
           synthesizeProfiles fp g routeLength points
             = Inr (sp, bpm, cad, horizon routeLength - 2)
         \<and> int (length sp) = horizon routeLength
         \<and> int (length bpm) = horizon routeLength - 2
         \<and> int (length cad) = horizon routeLength - 2"
  using synthesizeProfiles_ok [OF assms, of fp g points] assms by fastforce

theorem C3_profile_lengths_witness:
  "3 \<le> horizon 6
   \<and> (\<exists>sp bpm cad. synthesizeProfiles exact_unit low_rng 6 dense_route = Inr (sp, bpm, cad, 3)
          \<and> length sp = 5 \<and> length bpm = 3 \<and> length cad = 3)"
  using C3_profile_lengths [OF horizon_6_ge, of exact_unit low_rng dense_route] horizon_6_ge
  by (simp add: horizon_6)

text \<open>
  C3 as stated fails on a 6 m request: the speed profile has 5 samples, the other two
  have 3.
\<close>

theorem C3_profile_lengths_counterexample:
  "(case synthesizeProfiles exact_unit low_rng 6 dense_route of
      Inl e \<Rightarrow> False
    | Inr (sp, bpm, cad, t) \<Rightarrow>
        length sp = 5 \<and> length bpm = 3 \<and> length cad = 3 \<and> length sp \<noteq> length bpm)"
  using synthesizeProfiles_ok [OF horizon_6_ge, of exact_unit low_rng dense_route]
  by (auto simp: horizon_6)

text \<open>
  C4. For a horizon of at least 1, a positive target speed and every state of the random
  source, \<^verbatim>\<open>createSpeedProfile\<close> returns a profile of the horizon's length whose values
  are all at least 0.9 times the target speed.
\<close>

theorem C4_speed_floor:
  assumes "1 \<le> totalSeconds" and "0 < avgSpeed"
  shows "\<exists>sp g1. createSpeedProfile totalSeconds avgSpeed speedDecrease g = Inr (sp, g1)
           \<and> length sp = nat totalSeconds
           \<and> (\<forall>v \<in> set sp. 0.9 * avgSpeed \<le> v)"
  using createSpeedProfile_ok [OF assms(1), of avgSpeed speedDecrease g]
  by (simp add: mult.commute)

theorem C4_speed_floor_witness:
  "(1::int) \<le> 3 \<and> (0::real) < 1.5
   \<and> (\<exists>sp g1. createSpeedProfile 3 1.5 0.2 low_rng = Inr (sp, g1)
          \<and> length sp = 3 \<and> (\<forall>v \<in> set sp. 0.9 * 1.5 \<le> v))"
  using C4_speed_floor [of 3 "1.5" "0.2" low_rng] by simp

text \<open>
  C5. With the configured targets (heart rate 120, cadence 80), for every state of the
  random source, every speed profile and every elevation series: whenever
  \<^verbatim>\<open>createBPMProfile\<close> returns a profile, it starts at target - 20, all its samples lie
  in [60, 200], and so do the samples of its reconciled version (padded with the last
  value or cut, for every trajectory length) and their integer parts; whenever
  \<^verbatim>\<open>createCadenceProfile\<close> returns a profile, all its samples, and those of its
  reconciled version, lie in [30, 150]. Both return a profile when the length is at
  least 1 and the speed profile is at least that long.
\<close>

theorem C5_heart_rate_and_cadence_ranges:
  "(\<forall>bpm g1.
       createBPMProfile totalSeconds AvgBPM avgSpeed speedProfile elevationChanges g
         = Inr (bpm, g1) \<longrightarrow>
       bpm ! 0 = AvgBPM - 20
     \<and> (\<forall>v \<in> set bpm. 60 \<le> v \<and> v \<le> 200)
     \<and> (\<forall>n. \<exists>padded. adjust_profile bpm (int n) = Inr padded \<and> length padded = n
            \<and> (\<forall>v \<in> set padded. 60 \<le> v \<and> v \<le> 200
                                  \<and> 60 \<le> trunc v \<and> trunc v \<le> 200)))
   \<and> (\<forall>cad g2.
       createCadenceProfile totalSeconds AvgCadence avgSpeed speedProfile elevationChanges h
         = Inr (cad, g2) \<longrightarrow>
       (\<forall>v \<in> set cad. 30 \<le> v \<and> v \<le> 150)
     \<and> (\<forall>n. \<exists>padded. adjust_profile cad (int n) = Inr padded \<and> length padded = n
            \<and> (\<forall>v \<in> set padded. 30 \<le> v \<and> v \<le> 150)))
   \<and> (1 \<le> totalSeconds \<and> totalSeconds \<le> int (length speedProfile) \<longrightarrow>
       (\<exists>bpm g1 cad g2.
           createBPMProfile totalSeconds AvgBPM avgSpeed speedProfile elevationChanges g
             = Inr (bpm, g1)
         \<and> createCadenceProfile totalSeconds AvgCadence avgSpeed speedProfile elevationChanges h
             = Inr (cad, g2)))"
proof -
  have a: "bpm ! 0 = AvgBPM - 20
     \<and> (\<forall>v \<in> set bpm. 60 \<le> v \<and> v \<le> 200)
     \<and> (\<forall>n. \<exists>padded. adjust_profile bpm (int n) = Inr padded \<and> length padded = n
            \<and> (\<forall>v \<in> set padded. 60 \<le> v \<and> v \<le> 200
                                  \<and> 60 \<le> trunc v \<and> trunc v \<le> 200))"
    if b: "createBPMProfile totalSeconds AvgBPM avgSpeed speedProfile elevationChanges g
             = Inr (bpm, g1)" for bpm g1
  proof -
    have f: "bpm ! 0 = AvgBPM - 20" using b by (rule createBPMProfile_first)
    have r: "1 \<le> totalSeconds \<and> length bpm = nat totalSeconds
             \<and> (\<forall>v \<in> set bpm. 60 \<le> v \<and> v \<le> 200)"
      using b by (rule createBPMProfile_range) (simp_all add: AvgBPM_def)
    then have ne: "bpm \<noteq> []" by auto
    have rb': "\<forall>v \<in> set bpm. 60 \<le> v \<and> v \<le> 200 \<and> 60 \<le> trunc v \<and> trunc v \<le> 200"
    proof
      fix v assume "v \<in> set bpm"
      then have "60 \<le> v \<and> v \<le> 200" using r by blast
      then show "60 \<le> v \<and> v \<le> 200 \<and> 60 \<le> trunc v \<and> trunc v \<le> 200"
        using trunc_range [of 60 v 200] by simp
    qed
    have "\<forall>n. \<exists>padded. adjust_profile bpm (int n) = Inr padded \<and> length padded = n
                \<and> (\<forall>v \<in> set padded. 60 \<le> v \<and> v \<le> 200
                                      \<and> 60 \<le> trunc v \<and> trunc v \<le> 200)"
      using adjust_profile_range [OF ne rb'] by blast
    then show ?thesis using f r by blast
  qed
  have c: "(\<forall>v \<in> set cad. 30 \<le> v \<and> v \<le> 150)
     \<and> (\<forall>n. \<exists>padded. adjust_profile cad (int n) = Inr padded \<and> length padded = n
            \<and> (\<forall>v \<in> set padded. 30 \<le> v \<and> v \<le> 150))"
    if b: "createCadenceProfile totalSeconds AvgCadence avgSpeed speedProfile elevationChanges h
             = Inr (cad, g2)" for cad g2
  proof -
    have r: "1 \<le> totalSeconds \<and> length cad = nat totalSeconds
             \<and> (\<forall>v \<in> set cad. 30 \<le> v \<and> v \<le> 150)"
      using b by (rule createCadenceProfile_range) (simp_all add: AvgCadence_def)
    then have ne: "cad \<noteq> []" by auto
    have rc: "\<forall>v \<in> set cad. 30 \<le> v \<and> v \<le> 150" using r by blast
    have "\<forall>n. \<exists>padded. adjust_profile cad (int n) = Inr padded \<and> length padded = n
                \<and> (\<forall>v \<in> set padded. 30 \<le> v \<and> v \<le> 150)"
      using adjust_profile_range [OF ne rc] by blast
    then show ?thesis using rc by blast
  qed
  have e: "\<exists>bpm g1 cad g2.
           createBPMProfile totalSeconds AvgBPM avgSpeed speedProfile elevationChanges g
             = Inr (bpm, g1)
         \<and> createCadenceProfile totalSeconds AvgCadence avgSpeed speedProfile elevationChanges h
             = Inr (cad, g2)"
    if h: "1 \<le> totalSeconds" "totalSeconds \<le> int (length speedProfile)"
    using createBPMProfile_ok [OF h, of AvgBPM avgSpeed elevationChanges g]
      createCadenceProfile_ok [OF h, of AvgCadence avgSpeed elevationChanges h]
    by (auto simp: AvgBPM_def AvgCadence_def)
  show ?thesis using a c e by blast
qed

theorem C5_heart_rate_and_cadence_ranges_witness:
  "(1::int) \<le> 3 \<and> 3 \<le> int (length [1.8, 1.35, 1.35 :: real])
   \<and> (\<exists>bpm g1 cad g2.
          createBPMProfile 3 AvgBPM 1.5 [1.8, 1.35, 1.35] [0, 0.5, - 0.5] low_rng = Inr (bpm, g1)
        \<and> createCadenceProfile 3 AvgCadence 1.5 [1.8, 1.35, 1.35] [0, 0.5, - 0.5] low_rng
            = Inr (cad, g2)
        \<and> bpm ! 0 = 100
        \<and> (\<forall>v \<in> set bpm. 60 \<le> v \<and> v \<le> 200)
        \<and> (\<forall>v \<in> set cad. 30 \<le> v \<and> v \<le> 150))"
proof -
  have h: "(1::int) \<le> 3 \<and> 3 \<le> int (length [1.8, 1.35, 1.35 :: real])" by simp
  note c5 = C5_heart_rate_and_cadence_ranges
              [of 3 "1.5" "[1.8, 1.35, 1.35]" "[0, 0.5, - 0.5]" low_rng low_rng]
  obtain bpm g1 cad g2 where
    b: "createBPMProfile 3 AvgBPM 1.5 [1.8, 1.35, 1.35] [0, 0.5, - 0.5] low_rng = Inr (bpm, g1)"
    and c: "createCadenceProfile 3 AvgCadence 1.5 [1.8, 1.35, 1.35] [0, 0.5, - 0.5] low_rng
       = Inr (cad, g2)"
    using c5 h by blast
  have "bpm ! 0 = AvgBPM - 20" "\<forall>v \<in> set bpm. 60 \<le> v \<and> v \<le> 200"
    using c5 b by blast+
  moreover have "\<forall>v \<in> set cad. 30 \<le> v \<and> v \<le> 150" using c5 c by blast
  ultimately show ?thesis using h b c by (auto simp: AvgBPM_def)
qed

text \<open>
  C6. The handler does not advance the elapsed time by the duration the interpolator
  uses. For two waypoints about 0.56 m apart (less than any speed of the profile),
  \<^verbatim>\<open>interpolatePoints\<close> raises the zero duration to 1 and emits one sample, while the
  handler's own duration (lines 253 to 258) is 0: the loop ends with one sample and
  \<^verbatim>\<open>currentTime = 0\<close>. This holds for every state of the random source and every
  float unit that computes the hop as a number below 1.35 m, as exact arithmetic
  does.
\<close>

theorem C6_short_segment_advances_no_time:
  assumes "short_hops fp 1.35 [start_point, near_point]"
  shows "\<exists>sp bpm cad pt.
           synthesizeProfiles fp g 6 [start_point, near_point] = Inr (sp, bpm, cad, 3)
         \<and> interpolatePoints fp start_point near_point sp 3 0 = Inr [pt]
         \<and> segment_duration fp
             (haversineDistance fp (Lat start_point) (Lon start_point)
                (Lat near_point) (Lon near_point))
             (sp ! 0) = 0
         \<and> segment_loop fp [start_point, near_point] sp 3 0 [] = Inr ([pt], 0)"
proof -
  let ?pts = "[start_point, near_point]"
  obtain sp bpm cad where
    sy: "synthesizeProfiles fp g 6 ?pts = Inr (sp, bpm, cad, horizon 6 - 2)"
    and lsp: "length sp = nat (horizon 6)"
    and rsp: "\<forall>v \<in> set sp. AvgSpeed * 0.9 \<le> v"
    using synthesizeProfiles_ok [OF horizon_6_ge, of fp g ?pts] by blast
  have l5: "length sp = 5" using lsp by (simp add: horizon_6)
  have "sp ! 0 \<in> set sp" using l5 by (intro nth_mem) simp
  then have s0: "1.35 \<le> sp ! 0" using rsp by (auto simp: AvgSpeed_def)
  obtain d where hd: "haversineDistance fp (Lat start_point) (Lon start_point)
                        (Lat near_point) (Lon near_point) = Metres d"
    and db: "d < 1.35"
    using assms by (auto split: distance.splits)
  have d0: "0 \<le> d" using hd by (rule haversineDistance_nonneg)
  have lt: "d < sp ! 0" using db s0 by simp
  have du: "segment_duration fp (Metres d) (sp ! 0) = 0"
    using d0 lt by (rule segment_duration_short)
  obtain pt where ip: "interpolatePoints fp start_point near_point sp 3 0 = Inr [pt]"
    using interpolatePoints_short [of 0 sp fp start_point near_point d 3] hd lt l5 by auto
  have ix: "index sp 0 = Inr (sp ! 0)" using l5 by (simp add: index_def)
  have sl: "segment_loop fp ?pts sp 3 0 [] = Inr ([pt], 0)"
    by (simp add: ip ix du hd)
  have sy3: "synthesizeProfiles fp g 6 ?pts = Inr (sp, bpm, cad, 3)"
    using sy by (simp add: horizon_6)
  have du': "segment_duration fp
               (haversineDistance fp (Lat start_point) (Lon start_point)
                  (Lat near_point) (Lon near_point))
               (sp ! 0) = 0"
    by (simp only: hd du)
  show ?thesis
    by (rule exI [of _ sp], rule exI [of _ bpm], rule exI [of _ cad], rule exI [of _ pt])
       (intro conjI sy3 ip du' sl)
qed

theorem C6_short_segment_advances_no_time_witness:
  "short_hops exact_unit 1.35 [start_point, near_point]
   \<and> (\<forall>g. \<exists>sp bpm cad pt.
          synthesizeProfiles exact_unit g 6 [start_point, near_point]
            = Inr (sp, bpm, cad, 3)
        \<and> interpolatePoints exact_unit start_point near_point sp 3 0 = Inr [pt]
        \<and> segment_duration exact_unit
            (haversineDistance exact_unit (Lat start_point) (Lon start_point)
               (Lat near_point) (Lon near_point))
            (sp ! 0) = 0
        \<and> segment_loop exact_unit [start_point, near_point] sp 3 0 [] = Inr ([pt], 0))"
  using C6_short_segment_advances_no_time [OF near_point_short] near_point_short
  by blast

text \<open>
  C7, as amended. Given a length of 0 or less, \<^verbatim>\<open>createBPMProfile\<close> and
  \<^verbatim>\<open>createCadenceProfile\<close> panic (negative length given to \<^verbatim>\<open>make\<close>, or index 0 out
  of range). On at least one parsed waypoint the handler panics when the inflated
  horizon is below 3. For a horizon of at least 3 no index leaves its slice in the
  profile generators, whatever the float unit; and when no distance between
  consecutive waypoints is NaN, none does in the loop over the segments either, and the
  handler returns a record.
\<close>

theorem C7_panic_below_three_in_bounds_from_three:
  assumes "points \<noteq> []"
  shows "(totalSeconds \<le> 0 \<longrightarrow>
            createBPMProfile totalSeconds avgBPM avgSpeed speedProfile elevationChanges h
              = Inl (Panic (if totalSeconds < 0 then MakeSliceLenOutOfRange
                            else IndexOutOfRange))
          \<and> createCadenceProfile totalSeconds avgCadence avgSpeed speedProfile elevationChanges h
              = Inl (Panic (if totalSeconds < 0 then MakeSliceLenOutOfRange
                            else IndexOutOfRange)))
       \<and> (horizon routeLength < 3 \<longrightarrow>
            HandleGenerateFileSingleMarker fp now g routeLength points
              = Inl (Panic (if horizon routeLength < 0 \<or> horizon routeLength = 1
                            then MakeSliceLenOutOfRange else IndexOutOfRange)))
       \<and> (3 \<le> horizon routeLength \<longrightarrow>
            (\<exists>sp bpm cad.
                synthesizeProfiles fp g routeLength points
                  = Inr (sp, bpm, cad, horizon routeLength - 2)))
       \<and> (3 \<le> horizon routeLength \<and> all_numbers fp points \<longrightarrow>
            (\<exists>sp bpm cad pts ct r.
                synthesizeProfiles fp g routeLength points
                  = Inr (sp, bpm, cad, horizon routeLength - 2)
              \<and> segment_loop fp points sp (horizon routeLength - 2) 0 [] = Inr (pts, ct)
              \<and> HandleGenerateFileSingleMarker fp now g routeLength points = Inr r))"
proof -
  have a: "createBPMProfile totalSeconds avgBPM avgSpeed speedProfile elevationChanges h
              = Inl (Panic (if totalSeconds < 0 then MakeSliceLenOutOfRange
                            else IndexOutOfRange))
          \<and> createCadenceProfile totalSeconds avgCadence avgSpeed speedProfile elevationChanges h
              = Inl (Panic (if totalSeconds < 0 then MakeSliceLenOutOfRange
                            else IndexOutOfRange))"
    if "totalSeconds \<le> 0"
    using that by (rule generator_panic_kind)
  have b: "HandleGenerateFileSingleMarker fp now g routeLength points
              = Inl (Panic (if horizon routeLength < 0 \<or> horizon routeLength = 1
                            then MakeSliceLenOutOfRange else IndexOutOfRange))"
    if "horizon routeLength < 3"
    using that by (rule handler_panic_kind [OF assms])
  have c: "\<exists>sp bpm cad.
                synthesizeProfiles fp g routeLength points
                  = Inr (sp, bpm, cad, horizon routeLength - 2)"
    if "3 \<le> horizon routeLength"
    using synthesizeProfiles_ok [OF that, of fp g points] by blast
  have d: "\<exists>sp bpm cad pts ct r.
                synthesizeProfiles fp g routeLength points
                  = Inr (sp, bpm, cad, horizon routeLength - 2)
              \<and> segment_loop fp points sp (horizon routeLength - 2) 0 [] = Inr (pts, ct)
              \<and> HandleGenerateFileSingleMarker fp now g routeLength points = Inr r"
    if "3 \<le> horizon routeLength" "all_numbers fp points"
    using handler_ok [OF assms that, of g] by blast
  show ?thesis using a b c d by blast
qed

theorem C7_panic_below_three_in_bounds_from_three_witness:
  "dense_route \<noteq> []
   \<and> createBPMProfile 0 AvgBPM AvgSpeed [1.8] [0] low_rng = Inl (Panic IndexOutOfRange)
   \<and> createCadenceProfile (- 1) AvgCadence AvgSpeed [1.8] [0] low_rng
       = Inl (Panic MakeSliceLenOutOfRange)
   \<and> HandleGenerateFileSingleMarker exact_unit 0 low_rng 2 dense_route
       = Inl (Panic MakeSliceLenOutOfRange)
   \<and> HandleGenerateFileSingleMarker exact_unit 0 low_rng 3 dense_route
       = Inl (Panic IndexOutOfRange)
   \<and> 3 \<le> horizon 6 \<and> all_numbers exact_unit dense_route
   \<and> (\<exists>r. HandleGenerateFileSingleMarker exact_unit 0 low_rng 6 dense_route = Inr r)"
proof -
  note c7 = C7_panic_below_three_in_bounds_from_three [OF dense_route_nonempty]
  show ?thesis
    using c7 [of 0 AvgBPM AvgSpeed "[1.8]" "[0]" low_rng AvgCadence 2 exact_unit 0 low_rng]
          c7 [of "- 1" AvgBPM AvgSpeed "[1.8]" "[0]" low_rng AvgCadence 3 exact_unit 0 low_rng]
          c7 [of 0 AvgBPM AvgSpeed "[1.8]" "[0]" low_rng AvgCadence 6 exact_unit 0 low_rng]
          dense_route_nonempty horizon_6_ge all_numbers_exact [of dense_route]
    by (auto simp: horizon_values)
qed

text \<open>
  C7 as stated fails. With a horizon of at least 3 (route length 6) the loop over the
  segments does leave the speed profile: on \<open>antipodal_route\<close>, where the float value of
  \<open>a\<close> is above 1, the first distance is NaN, \<^verbatim>\<open>currentTime\<close> becomes \<^verbatim>\<open>int(NaN)\<close>,
  negative on amd64, and \<^verbatim>\<open>speedProfile[currentTime]\<close> panics at the second hop. And
  with a horizon below 3 (route length 0) but no parsed waypoint the handler does not
  panic: it answers 500 from its guard at line 203.
\<close>

theorem C7_segment_loop_leaves_bounds_counterexample:
  "3 \<le> horizon 6
   \<and> HandleGenerateFileSingleMarker ulp_unit 0 low_rng 6 antipodal_route
       = Inl (Panic IndexOutOfRange)
   \<and> horizon 0 < 3
   \<and> HandleGenerateFileSingleMarker exact_unit 0 low_rng 0 []
       = Inl (Response500 ''No track points found in the route.'')"
  using horizon_6_ge handler_antipodal [of 0 low_rng]
  by (simp add: horizon_values HandleGenerateFileSingleMarker_def)




text \<open>
  C9. For every waypoint sequence, every float unit and every horizon of at least 0 (the
  handler reaches this step only with a horizon of at least 1), the elevation series of
  lines 217 to 238 is the series the specification describes (for each consecutive
  pair of waypoints, one value per whole second of the traversal at the assumed speed,
  each the pair's elevation delta divided by the number of seconds, all concatenated),
  followed by zeros when it is shorter than the horizon and cut at the horizon when it
  is longer: its length is exactly the horizon.
\<close>

theorem C9_elevation_series_length:
  assumes "0 \<le> totalTimeSeconds"
  shows "\<exists>ec. elevation_series fp points totalTimeSeconds = Inr ec
           \<and> length ec = nat totalTimeSeconds
           \<and> (int (length (per_second_deltas fp points)) < totalTimeSeconds \<longrightarrow>
                ec = per_second_deltas fp points
                     @ replicate (nat totalTimeSeconds - length (per_second_deltas fp points)) 0)
           \<and> (totalTimeSeconds \<le> int (length (per_second_deltas fp points)) \<longrightarrow>
                ec = take (nat totalTimeSeconds) (per_second_deltas fp points))"
  using assms by (auto simp: elevation_series_eq)

theorem C9_elevation_series_length_witness:
  "(0::int) \<le> 1 \<and> (0::int) \<le> 3
   \<and> per_second_deltas exact_unit climb_route = [2, 2]
   \<and> elevation_series exact_unit climb_route 1 = Inr [2]
   \<and> elevation_series exact_unit climb_route 3 = Inr [2, 2, 0]"
  using C9_elevation_series_length [of 1 exact_unit climb_route]
        C9_elevation_series_length [of 3 exact_unit climb_route]
  by (auto simp: climb_deltas numeral_3_eq_3)

text \<open>
  C10. On a single waypoint and an inflated horizon of at least 3 the handler returns a
  successful record whose four sequences are empty, for every float unit, clock
  reading and state of the random source: the second of the two policies, always.
\<close>

theorem C10_single_waypoint_empty_record:
  assumes "3 \<le> horizon routeLength"
  shows "HandleGenerateFileSingleMarker fp now g routeLength [p]
         = Inr \<lparr>Timestamps = [], BPMProfile = [], PaceProfile = [], Route = []\<rparr>"
proof -
  obtain sp bpm cad where
    run: "\<forall>now. HandleGenerateFileSingleMarker fp now g routeLength [p] =
               (case segment_loop fp [p] sp (horizon routeLength - 2) 0 [] of
                  Inl e \<Rightarrow> Inl e
                | Inr (pts, ct) \<Rightarrow> Inr (assembled now sp bpm pts))"
    using handler_run [OF _ assms, of "[p]" fp g] by auto
  then show ?thesis by (simp add: assembled_def)
qed

theorem C10_single_waypoint_empty_record_witness:
  "3 \<le> horizon 6
   \<and> HandleGenerateFileSingleMarker exact_unit 0 low_rng 6 [start_point]
       = Inr \<lparr>Timestamps = [], BPMProfile = [], PaceProfile = [], Route = []\<rparr>"
  using C10_single_waypoint_empty_record [OF horizon_6_ge, of exact_unit 0 low_rng start_point]
    horizon_6_ge by simp

end
